theory Spec2Isabelle
  imports Complex_Main "HOL-Library.Char_ord" "HOL-Library.List_Lexorder" "HOL-Library.Sublist"
begin

section \<open>Python values used by the slicer\<close>

text \<open>
  Python floats are modelled as real numbers, Python's unbounded integers as \<open>int\<close>,
  and text as \<open>string\<close> restricted to ASCII. Exceptions are values of \<open>py_error\<close>;
  a call that may raise returns \<open>py_error + 'a\<close> with \<open>Inl\<close> for the exception.
\<close>

datatype py_error =
    CalledProcessError
  | ValueError string
  | OSError string
  | ZeroDivisionError
  | RuntimeError string

text \<open>\<open>isinstance(e, subprocess.CalledProcessError)\<close>, the test of the handler in the prober.\<close>

fun is_CalledProcessError :: "py_error \<Rightarrow> bool" where
  "is_CalledProcessError CalledProcessError = True"
| "is_CalledProcessError _ = False"

text \<open>The characters \<open>str.strip()\<close> removes, within ASCII: codes 9 to 13, 28 to 31 and
  the blank.\<close>

definition is_space :: "char \<Rightarrow> bool" where
  "is_space c = (let n = (of_char c :: nat) in (9 \<le> n \<and> n \<le> 13) \<or> (28 \<le> n \<and> n \<le> 32))"

definition strip :: "string \<Rightarrow> string" where
  "strip s = rev (dropWhile is_space (rev (dropWhile is_space s)))"

text \<open>
  \<open>int()\<close> skips fewer characters around the number than \<open>str.strip()\<close> removes: codes
  9 to 13 and the blank only. On the separators 28 to 31 it raises.
\<close>

definition is_int_space :: "char \<Rightarrow> bool" where
  "is_int_space c = (let n = (of_char c :: nat) in (9 \<le> n \<and> n \<le> 13) \<or> n = 32)"

definition int_strip :: "string \<Rightarrow> string" where
  "int_strip s = rev (dropWhile is_int_space (rev (dropWhile is_int_space s)))"

definition is_digit :: "char \<Rightarrow> bool" where
  "is_digit c = (let n = (of_char c :: nat) in 48 \<le> n \<and> n \<le> 57)"

definition digit_val :: "char \<Rightarrow> int" where
  "digit_val c = int (of_char c) - 48"

text \<open>After a digit: more digits, each optionally preceded by one underscore.\<close>

fun parse_digits :: "int \<Rightarrow> string \<Rightarrow> int option" where
  "parse_digits acc [] = Some acc"
| "parse_digits acc [c] = (if is_digit c then Some (acc * 10 + digit_val c) else None)"
| "parse_digits acc (c # d # cs) =
     (if is_digit c then parse_digits (acc * 10 + digit_val c) (d # cs)
      else if c = CHR ''_'' \<and> is_digit d then parse_digits (acc * 10 + digit_val d) cs
      else None)"

text \<open>
  Python's \<open>int(s)\<close> on a string, base 10: the white space \<open>int\<close> skips is dropped on
  both sides, one sign is allowed, then at least one digit, with single underscores
  between digits; anything else raises \<open>ValueError\<close>.
\<close>

definition py_int :: "string \<Rightarrow> py_error + int" where
  "py_int s =
     (let t = int_strip s;
          neg = (case t of [] \<Rightarrow> False | c # _ \<Rightarrow> c = CHR ''-'');
          body = (case t of [] \<Rightarrow> [] | c # cs \<Rightarrow> if c = CHR ''-'' \<or> c = CHR ''+'' then cs else t)
      in case body of
           [] \<Rightarrow> Inl (ValueError s)
         | c # cs \<Rightarrow>
             if is_digit c then
               (case parse_digits (digit_val c) cs of
                  None \<Rightarrow> Inl (ValueError s)
                | Some n \<Rightarrow> Inr (if neg then - n else n))
             else Inl (ValueError s))"

section \<open>Prober and segment-time estimator (app.py)\<close>

text \<open>
  What the environment answers to the worker: the tools found on PATH, the two \<open>ffprobe\<close>
  queries, the file size, the splitter process, the directory listing and the clock.
  \<open>probe_duration\<close> is the result of \<open>ffprobe_duration\<close> (the query and \<open>float\<close> of its
  output); \<open>probe_bit_rate\<close> is the raw text that \<open>check_output\<close> returns, or its exception.
\<close>

datatype proc_result =
    LaunchFailed py_error
  | Ran "string list" int string

record env =
  tools_ok :: bool
  probe_duration :: "string \<Rightarrow> py_error + real"
  probe_bit_rate :: "string \<Rightarrow> py_error + string"
  getsize :: "string \<Rightarrow> py_error + int"
  popen :: "string \<Rightarrow> real \<Rightarrow> string \<Rightarrow> proc_result"
  listdir :: "string \<Rightarrow> py_error + string list"
  clock :: real
  OUTPUT_DIR :: string

definition ffprobe_duration :: "env \<Rightarrow> string \<Rightarrow> py_error + real" where
  "ffprobe_duration E path = probe_duration E path"

text \<open>Lines 45 to 47 of app.py: the bitrate computed from size and duration.\<close>

definition bitrate_calc :: "env \<Rightarrow> string \<Rightarrow> py_error + real" where
  "bitrate_calc E path =
     (case ffprobe_duration E path of
        Inl e \<Rightarrow> Inl e
      | Inr dur \<Rightarrow>
          (case getsize E path of
             Inl e \<Rightarrow> Inl e
           | Inr sz \<Rightarrow> Inr (real_of_int (sz * 8) / max dur (1 / 1000000))))"

text \<open>
  \<open>ffprobe_bitrate_or_calc\<close>: only \<open>CalledProcessError\<close> is caught by the handler, so the
  \<open>ValueError\<close> of \<open>int(br)\<close> leaves the function.
\<close>

definition ffprobe_bitrate_or_calc :: "env \<Rightarrow> string \<Rightarrow> py_error + real" where
  "ffprobe_bitrate_or_calc E path =
     (case probe_bit_rate E path of
        Inl e \<Rightarrow> if is_CalledProcessError e then bitrate_calc E path else Inl e
      | Inr out \<Rightarrow>
          (case py_int (strip out) of
             Inl e \<Rightarrow> if is_CalledProcessError e then bitrate_calc E path else Inl e
           | Inr br \<Rightarrow> if br > 0 then Inr (real_of_int br) else bitrate_calc E path))"

text \<open>Lines 51 and 52 of app.py, on a bitrate already probed; true division by zero raises.\<close>

definition seg_time_of :: "real \<Rightarrow> int \<Rightarrow> py_error + real" where
  "seg_time_of bitrate chunk_mb =
     (let target_bits = chunk_mb * 1024 * 1024 * 8
      in if bitrate = 0 then Inl ZeroDivisionError
         else Inr (max 1 (real_of_int target_bits / bitrate)))"

definition estimate_seg_time_secs :: "env \<Rightarrow> string \<Rightarrow> int \<Rightarrow> py_error + real" where
  "estimate_seg_time_secs E path chunk_mb =
     (case ffprobe_bitrate_or_calc E path of
        Inl e \<Rightarrow> Inl e
      | Inr bitrate \<Rightarrow> seg_time_of bitrate chunk_mb)"

section \<open>Paths (Python's posixpath)\<close>

text \<open>
  \<open>os.path.basename\<close>, \<open>dirname\<close>, \<open>splitext\<close> and \<open>join\<close> as the POSIX flavour of the
  standard library computes them. \<open>splitext\<close> splits at the last dot of the last
  component, unless only dots come before it there.
\<close>

definition basename :: "string \<Rightarrow> string" where
  "basename p = rev (takeWhile (\<lambda>c. c \<noteq> CHR ''/'') (rev p))"

definition dirname :: "string \<Rightarrow> string" where
  "dirname p =
     (let head = rev (dropWhile (\<lambda>c. c \<noteq> CHR ''/'') (rev p))
      in if list_ex (\<lambda>c. c \<noteq> CHR ''/'') head
         then rev (dropWhile (\<lambda>c. c = CHR ''/'') (rev head))
         else head)"

definition splitext :: "string \<Rightarrow> string \<times> string" where
  "splitext p =
     (let name = basename p;
          ext = rev (takeWhile (\<lambda>c. c \<noteq> CHR ''.'') (rev name));
          stem = take (length name - length ext - 1) name
      in if CHR ''.'' \<in> set name \<and> list_ex (\<lambda>c. c \<noteq> CHR ''.'') stem
         then (take (length p - length ext - 1) p, drop (length p - length ext - 1) p)
         else (p, []))"

definition join :: "string \<Rightarrow> string \<Rightarrow> string" where
  "join a b =
     (if prefix ''/'' b then b
      else if a = [] \<or> suffix ''/'' a then a @ b
      else a @ ''/'' @ b)"

text \<open>\<open>x or y\<close> on strings, with \<open>None\<close> and the empty string both false.\<close>

definition str_or :: "string option \<Rightarrow> string \<Rightarrow> string" where
  "str_or x y = (case x of None \<Rightarrow> y | Some s \<Rightarrow> if s = [] then y else s)"

section \<open>The job record and the worker (app.py, run_job)\<close>

datatype state = Queued | Running | Done | Error

text \<open>
  The \<open>msg\<close> field, by the expression that produced it: the f-strings and \<open>str(e)\<close> are
  kept as their arguments rather than rendered.
\<close>

datatype message =
    NoMsg
  | MetadataErrorMsg py_error
  | EstimateMsg int real
  | ProcessOutput string
  | FfmpegExited int
  | Completed
  | ExceptionText py_error

record job =
  status :: state
  pct :: real
  msg :: message
  started :: real
  finished :: "real option"
  input_path :: string
  out_pattern :: string
  parts :: "string list"

text \<open>
  The worker mutates the shared record field by field. \<open>writes j fs\<close> lists the versions
  of the record after each assignment of \<open>fs\<close>, in order: the history a concurrent reader
  may observe.
\<close>

fun writes :: "job \<Rightarrow> (job \<Rightarrow> job) list \<Rightarrow> job list" where
  "writes j [] = []"
| "writes j (f # fs) = f j # writes (f j) fs"

text \<open>The record as it stands after a history \<open>h\<close> that started from \<open>j\<close>.\<close>

definition latest :: "job \<Rightarrow> job list \<Rightarrow> job" where
  "latest j h = last (j # h)"

text \<open>Lines 57 and 58: the probes of the first \<open>try\<close> block.\<close>

definition metadata :: "env \<Rightarrow> string \<Rightarrow> int \<Rightarrow> py_error + real \<times> real" where
  "metadata E path chunk_mb =
     (case ffprobe_duration E path of
        Inl e \<Rightarrow> Inl e
      | Inr dur \<Rightarrow>
          (case estimate_seg_time_secs E path chunk_mb of
             Inl e \<Rightarrow> Inl e
           | Inr seg_time \<Rightarrow> Inr (dur, seg_time)))"

text \<open>
  One line of the splitter's progress stream (lines 90 to 98): \<open>Inr None\<close> leaves the
  record alone, \<open>Inr (Some p)\<close> assigns \<open>p\<close> to \<open>pct\<close>, \<open>Inl e\<close> is the exception of \<open>int(v)\<close>.
\<close>

definition progress_line :: "real \<Rightarrow> string \<Rightarrow> py_error + real option" where
  "progress_line dur raw =
     (let line = strip raw
      in if CHR ''='' \<notin> set line then Inr None
         else
           let k = takeWhile (\<lambda>c. c \<noteq> CHR ''='') line;
               v = tl (dropWhile (\<lambda>c. c \<noteq> CHR ''='') line)
           in if k = ''out_time_ms'' then
                (case py_int v of
                   Inl e \<Rightarrow> Inl e
                 | Inr n \<Rightarrow>
                     (let out_s = real_of_int n / 1000000
                      in Inr (Some (min 1 (out_s / max dur (1 / 1000000))))))
              else if k = ''progress'' \<and> v = ''end'' then Inr (Some 1)
              else Inr None)"

text \<open>The loop over \<open>proc.stdout\<close>: the versions written, and the exception that ended it.\<close>

fun read_progress :: "real \<Rightarrow> job \<Rightarrow> string list \<Rightarrow> job list \<times> py_error option" where
  "read_progress dur j [] = ([], None)"
| "read_progress dur j (l # ls) =
     (case progress_line dur l of
        Inl e \<Rightarrow> ([], Some e)
      | Inr None \<Rightarrow> read_progress dur j ls
      | Inr (Some p) \<Rightarrow>
          (case read_progress dur (j\<lparr>pct := p\<rparr>) ls of
             (h, r) \<Rightarrow> (j\<lparr>pct := p\<rparr> # h, r)))"

text \<open>The handler of lines 113 to 116.\<close>

definition failed :: "env \<Rightarrow> py_error \<Rightarrow> (job \<Rightarrow> job) list" where
  "failed E e =
     [\<lambda>j. j\<lparr>status := Error\<rparr>,
      \<lambda>j. j\<lparr>msg := ExceptionText e\<rparr>,
      \<lambda>j. j\<lparr>finished := Some (clock E)\<rparr>]"

text \<open>The names kept by lines 107 to 111, from a listing of the directory.\<close>

definition produced :: "string \<Rightarrow> string \<Rightarrow> string list \<Rightarrow> string list" where
  "produced out_pat ext names =
     (let pre = takeWhile (\<lambda>c. c \<noteq> CHR ''%'') (basename out_pat)
      in sort (filter (\<lambda>f. prefix pre f \<and> suffix ext f) names))"

text \<open>Lines 87 to 116: the splitter process, its progress stream and its exit.\<close>

definition supervise :: "env \<Rightarrow> job \<Rightarrow> string \<Rightarrow> real \<Rightarrow> string \<Rightarrow> string \<Rightarrow> real \<Rightarrow> job list" where
  "supervise E j path seg_time out_pat ext dur =
     (case popen E path seg_time out_pat of
        LaunchFailed e \<Rightarrow> writes j (failed E e)
      | Ran lines ret err \<Rightarrow>
          (case read_progress dur j lines of
             (h, Some e) \<Rightarrow> h @ writes (latest j h) (failed E e)
           | (h, None) \<Rightarrow>
               if ret \<noteq> 0 then
                 h @ writes (latest j h)
                   [\<lambda>j. j\<lparr>status := Error\<rparr>,
                    \<lambda>j. j\<lparr>msg := (if err \<noteq> [] then ProcessOutput err else FfmpegExited ret)\<rparr>,
                    \<lambda>j. j\<lparr>finished := Some (clock E)\<rparr>]
               else
                 (let h2 = h @ writes (latest j h)
                            [\<lambda>j. j\<lparr>status := Done\<rparr>, \<lambda>j. j\<lparr>msg := Completed\<rparr>];
                      dirpath = str_or (Some (dirname out_pat)) ''.''
                  in case listdir E dirpath of
                       Inl e \<Rightarrow> h2 @ writes (latest j h2) (failed E e)
                     | Inr names \<Rightarrow>
                         h2 @ writes (latest j h2)
                           [\<lambda>j. j\<lparr>parts := produced out_pat ext names\<rparr>,
                            \<lambda>j. j\<lparr>finished := Some (clock E)\<rparr>])))"

text \<open>
  \<open>run_job\<close> on the record \<open>j\<close> that \<open>JOBS[job_id]\<close> holds. \<open>Inl\<close>: the exception of
  \<open>require_tools\<close>, which no handler catches and which ends the thread before any write.
  \<open>Inr h\<close>: the versions of the record the worker wrote.
\<close>

definition run_job :: "env \<Rightarrow> job \<Rightarrow> string \<Rightarrow> int \<Rightarrow> string option \<Rightarrow> py_error + job list" where
  "run_job E j path chunk_mb pattern =
     (if \<not> tools_ok E then Inl (RuntimeError ''ffmpeg and ffprobe must be on PATH'')
      else case metadata E path chunk_mb of
             Inl e \<Rightarrow>
               Inr (writes j
                 [\<lambda>j. j\<lparr>status := Error\<rparr>,
                  \<lambda>j. j\<lparr>msg := MetadataErrorMsg e\<rparr>,
                  \<lambda>j. j\<lparr>pct := 0\<rparr>,
                  \<lambda>j. j\<lparr>finished := Some (clock E)\<rparr>])
           | Inr (dur, seg_time) \<Rightarrow>
               (let base = fst (splitext (basename path));
                    ext = str_or (Some (snd (splitext path))) ''.mp4'';
                    out_pat = str_or pattern (join (OUTPUT_DIR E) (base @ ''_part%03d'' @ ext));
                    h = writes j
                          [\<lambda>j. j\<lparr>status := Running\<rparr>,
                           \<lambda>j. j\<lparr>msg := EstimateMsg \<lceil>dur / seg_time\<rceil> seg_time\<rparr>,
                           \<lambda>j. j\<lparr>out_pattern := out_pat\<rparr>]
                in Inr (h @ supervise E (latest j h) path seg_time out_pat ext dur)))"

section \<open>Submission and the progress stream (app.py, start and progress_stream)\<close>

text \<open>
  The request as \<open>start\<close> reads it: the file name of the uploaded part (\<open>None\<close> when the
  part is missing) and the two form fields. The server state is the registry \<open>JOBS\<close>,
  the files saved under the upload directory and the workers started so far, each with
  the arguments of its \<open>run_job\<close>.
\<close>

record request =
  file_part :: "string option"
  form_chunk_mb :: "string option"
  form_pattern :: "string option"

datatype response = Abort nat string | Raised py_error | Redirect string

record server =
  JOBS :: "string \<rightharpoonup> job"
  uploads :: "string list"
  threads :: "(string \<times> string \<times> int \<times> string option) list"

record web_env =
  uuid_upload :: string
  uuid_job :: string
  now :: real
  UPLOAD_DIR :: string
  save_error :: "py_error option"

text \<open>Lines 130 to 134: \<open>int\<close> of the form field (default \<open>"0"\<close>) and the assertion.\<close>

definition read_chunk_mb :: "request \<Rightarrow> int option" where
  "read_chunk_mb rq =
     (case py_int (case form_chunk_mb rq of None \<Rightarrow> ''0'' | Some s \<Rightarrow> s) of
        Inl e \<Rightarrow> None
      | Inr n \<Rightarrow> if n > 0 then Some n else None)"

definition new_job :: "real \<Rightarrow> string \<Rightarrow> string option \<Rightarrow> job" where
  "new_job t path pattern =
     \<lparr>status = Queued, pct = 0, msg = NoMsg, started = t, finished = None,
      input_path = path, out_pattern = str_or pattern [], parts = []\<rparr>"

definition start :: "web_env \<Rightarrow> request \<Rightarrow> server \<Rightarrow> response \<times> server" where
  "start W rq S =
     (case read_chunk_mb rq of
        None \<Rightarrow> (Abort 400 ''chunk_mb must be a positive integer'', S)
      | Some chunk_mb \<Rightarrow>
          (let p = strip (case form_pattern rq of None \<Rightarrow> [] | Some s \<Rightarrow> s);
               pattern = (if p = [] then None else Some p)
           in case file_part rq of
                None \<Rightarrow> (Abort 400 ''Please upload a file'', S)
              | Some filename \<Rightarrow>
                  if filename = [] then (Abort 400 ''Please upload a file'', S)
                  else
                    (let up_name = uuid_upload W @ ''_'' @ basename filename;
                         dest = join (UPLOAD_DIR W) up_name
                     in case save_error W of
                          Some e \<Rightarrow> (Raised e, S)
                        | None \<Rightarrow>
                            (let job_id = uuid_job W
                             in (Redirect job_id,
                                 S\<lparr>JOBS := (JOBS S)(job_id \<mapsto> new_job (now W) dest pattern),
                                   uploads := uploads S @ [dest],
                                   threads := threads S @ [(job_id, dest, chunk_mb, pattern)]\<rparr>)))))"

text \<open>
  The generator of \<open>progress_stream\<close> holds a reference to the record the worker is
  mutating, with no lock, so each of its reads sees the version current at that moment.
  One \<open>reads\<close> value gives, for one turn of the loop, whether \<open>JOBS.get\<close> found the record
  and the version seen by each read, in program order: \<open>status\<close>, \<open>pct\<close> and \<open>msg\<close> of the
  payload, the \<open>status\<close> tested for \<open>files\<close>, \<open>parts\<close>, and the \<open>status\<close> tested after the
  \<open>yield\<close>. The list of turns is the fuel of the loop: \<open>None\<close> is a stream that has not
  ended within the turns given.
\<close>

record reads =
  present :: bool
  at_status :: job
  at_pct :: job
  at_msg :: job
  at_cond :: job
  at_parts :: job
  at_break :: job

record payload =
  p_status :: state
  p_pct :: real
  p_msg :: message
  p_files :: "string list"

datatype event = Emit payload | Sleep real

definition terminal :: "state \<Rightarrow> bool" where
  "terminal s = (s = Done \<or> s = Error)"

definition snapshot :: "reads \<Rightarrow> payload" where
  "snapshot r =
     \<lparr>p_status = status (at_status r), p_pct = pct (at_pct r), p_msg = msg (at_msg r),
      p_files = (if terminal (status (at_cond r)) then parts (at_parts r) else [])\<rparr>"

fun gen :: "reads list \<Rightarrow> event list option" where
  "gen [] = None"
| "gen (r # rs) =
     (if \<not> present r then Some []
      else if terminal (status (at_break r)) then Some [Emit (snapshot r)]
      else map_option (\<lambda>es. Emit (snapshot r) # Sleep (15 / 100) # es) (gen rs))"

definition progress_stream :: "server \<Rightarrow> string \<Rightarrow> reads list \<Rightarrow> response + event list option" where
  "progress_stream S job_id rs =
     (if JOBS S job_id = None then Inl (Abort 404 []) else Inr (gen rs))"

text \<open>A turn of the loop during which the worker writes nothing: every read sees \<open>j\<close>.\<close>

definition quiet :: "job \<Rightarrow> reads" where
  "quiet j =
     \<lparr>present = True, at_status = j, at_pct = j, at_msg = j,
      at_cond = j, at_parts = j, at_break = j\<rparr>"

section \<open>The command-line slicer (slice.py)\<close>

text \<open>
  \<open>ask\<close> is the raw output of the \<open>ffprobe\<close> query for a path and a key, or its exception;
  \<open>to_float\<close> stands for Python's \<open>float\<close> on a string, which is taken as given.
\<close>

record cli_env =
  ask :: "string \<Rightarrow> string \<Rightarrow> py_error + string"
  to_float :: "string \<Rightarrow> py_error + real"

definition ffprobe_value :: "cli_env \<Rightarrow> string \<Rightarrow> string \<Rightarrow> py_error + string" where
  "ffprobe_value C path key = (case ask C path key of Inl e \<Rightarrow> Inl e | Inr out \<Rightarrow> Inr (strip out))"

text \<open>Lines 22 to 26 of slice.py: the declared bitrate, 0 when empty or when the query fails.\<close>

definition declared_bit_rate :: "cli_env \<Rightarrow> string \<Rightarrow> py_error + int" where
  "declared_bit_rate C input_file =
     (case ffprobe_value C input_file ''format=bit_rate'' of
        Inl e \<Rightarrow> if is_CalledProcessError e then Inr 0 else Inl e
      | Inr bit_rate_str \<Rightarrow>
          (case (if bit_rate_str \<noteq> [] then py_int bit_rate_str else Inr 0) of
             Inl e \<Rightarrow> if is_CalledProcessError e then Inr 0 else Inl e
           | Inr n \<Rightarrow> Inr n))"

text \<open>Lines 28 to 34: the bitrate used, with the fallback to size over duration.\<close>

definition cli_bit_rate :: "cli_env \<Rightarrow> string \<Rightarrow> py_error + real" where
  "cli_bit_rate C input_file =
     (case declared_bit_rate C input_file of
        Inl e \<Rightarrow> Inl e
      | Inr bit_rate \<Rightarrow>
          if bit_rate \<le> 0 then
            (case ffprobe_value C input_file ''format=duration'' of
               Inl e \<Rightarrow> Inl e
             | Inr d \<Rightarrow>
                 (case to_float C d of
                    Inl e \<Rightarrow> Inl e
                  | Inr dur \<Rightarrow>
                      (case ffprobe_value C input_file ''format=size'' of
                         Inl e \<Rightarrow> Inl e
                       | Inr s \<Rightarrow>
                           (case py_int s of
                              Inl e \<Rightarrow> Inl e
                            | Inr size_bytes \<Rightarrow>
                                if dur \<le> 0 then Inl (RuntimeError ''Could not determine duration.'')
                                else Inr (real_of_int (size_bytes * 8) / dur)))))
          else Inr (real_of_int bit_rate))"

definition compute_segment_time_secs :: "cli_env \<Rightarrow> string \<Rightarrow> int \<Rightarrow> py_error + real" where
  "compute_segment_time_secs C input_file chunk_mb =
     (case cli_bit_rate C input_file of
        Inl e \<Rightarrow> Inl e
      | Inr bit_rate \<Rightarrow>
          (let target_bits = chunk_mb * 1024 * 1024 * 8
           in if bit_rate = 0 then Inl ZeroDivisionError
              else Inr (max 1 (real_of_int target_bits / bit_rate))))"

text \<open>Lines 58 and 59 of slice.py.\<close>

definition cli_out_pattern :: "string \<Rightarrow> string option \<Rightarrow> string" where
  "cli_out_pattern input_file output_pattern =
     (case splitext input_file of
        (base, ext) \<Rightarrow> str_or output_pattern (base @ ''_part%03d'' @ str_or (Some ext) ''.mp4''))"

section \<open>Concrete environments\<close>

text \<open>
  A two-minute input of 60 MB under \<open>/srv/uploads\<close>; the answer to the bitrate query, the
  splitter process and the directory listing are left to each use.
\<close>

definition demo_env :: "(py_error + string) \<Rightarrow> proc_result \<Rightarrow> (py_error + string list) \<Rightarrow> env" where
  "demo_env br proc ls =
     \<lparr>tools_ok = True,
      probe_duration = (\<lambda>_. Inr 120),
      probe_bit_rate = (\<lambda>_. br),
      getsize = (\<lambda>_. Inr 60000000),
      popen = (\<lambda>_ _ _. proc),
      listdir = (\<lambda>_. ls),
      clock = 1000,
      OUTPUT_DIR = ''/srv/outputs''\<rparr>"

definition demo_cli :: "(py_error + string) \<Rightarrow> cli_env" where
  "demo_cli br =
     \<lparr>ask = (\<lambda>_ key. if key = ''format=bit_rate'' then br
                      else if key = ''format=duration'' then Inr ''120.000000''
                      else Inr ''60000000''),
      to_float = (\<lambda>_. Inr 120)\<rparr>"

definition demo_job :: job where
  "demo_job = new_job 990 ''/srv/uploads/ab12_clip.mp4'' None"

definition demo_web :: web_env where
  "demo_web =
     \<lparr>uuid_upload = ''ab12'', uuid_job = ''cd34'', now = 990,
      UPLOAD_DIR = ''/srv/uploads'', save_error = None\<rparr>"

definition demo_server :: server where
  "demo_server = \<lparr>JOBS = Map.empty, uploads = [], threads = []\<rparr>"

definition demo_request :: "string \<Rightarrow> request" where
  "demo_request chunk =
     \<lparr>file_part = Some ''clip.mp4'', form_chunk_mb = Some chunk, form_pattern = None\<rparr>"

text \<open>The states a job goes through: those of the record and of its versions in order,
  repetitions dropped.\<close>

definition state_path :: "job \<Rightarrow> job list \<Rightarrow> state list" where
  "state_path j h = remdups_adj (map status (j # h))"

section \<open>Conditions on a progress stream\<close>

text \<open>
  How the worker reads one line of the stream, as a value: skipped, an elapsed time in
  microseconds, the end marker, or an \<open>out_time_ms\<close> whose value \<open>int\<close> rejects.
\<close>

datatype reading = Skipped | Elapsed int | Ended | Unreadable

definition reading_of :: "string \<Rightarrow> reading" where
  "reading_of raw =
     (let line = strip raw;
          k = takeWhile (\<lambda>c. c \<noteq> CHR ''='') line;
          v = tl (dropWhile (\<lambda>c. c \<noteq> CHR ''='') line)
      in if CHR ''='' \<notin> set line then Skipped
         else if k = ''out_time_ms'' then
           (case py_int v of Inl e \<Rightarrow> Unreadable | Inr n \<Rightarrow> Elapsed n)
         else if k = ''progress'' \<and> v = ''end'' then Ended
         else Skipped)"

fun no_elapsed :: "reading \<Rightarrow> bool" where
  "no_elapsed (Elapsed n) = False"
| "no_elapsed _ = True"

text \<open>
  An orderly stream: every elapsed time is at least \<open>lo\<close> and at least the one before it,
  and no elapsed time comes after the end marker. What follows an unreadable value is
  never read.
\<close>

fun orderly :: "int \<Rightarrow> reading list \<Rightarrow> bool" where
  "orderly lo [] = True"
| "orderly lo (Skipped # rs) = orderly lo rs"
| "orderly lo (Elapsed n # rs) = (lo \<le> n \<and> orderly n rs)"
| "orderly lo (Ended # rs) = list_all no_elapsed rs"
| "orderly lo (Unreadable # rs) = True"

text \<open>The fraction line 96 computes from an elapsed time.\<close>

definition fraction :: "real \<Rightarrow> int \<Rightarrow> real" where
  "fraction dur n = min 1 ((real_of_int n / 1000000) / max dur (1 / 1000000))"

text \<open>The lines the worker reads from a process: none when it could not be started.\<close>

fun stdout_of :: "proc_result \<Rightarrow> string list" where
  "stdout_of (LaunchFailed e) = []"
| "stdout_of (Ran lines ret err) = lines"

text \<open>The versions written by a run that succeeds, with one part listed.\<close>

definition demo_history :: "job list" where
  "demo_history =
     (case run_job (demo_env (Inr ''4000000'') (Ran [''progress=end''] 0 [])
                      (Inr [''ab12_clip_part000.mp4'']))
             demo_job ''/srv/uploads/ab12_clip.mp4'' 5 None of
        Inl e \<Rightarrow> []
      | Inr h \<Rightarrow> h)"

text \<open>What the stream emits for polls that do not end it: a snapshot and a sleep each.\<close>

definition emitted :: "reads list \<Rightarrow> event list" where
  "emitted rs = concat (map (\<lambda>q. [Emit (snapshot q), Sleep (15 / 100)]) rs)"

section \<open>Facts about the Python primitives\<close>

lemmas py_int_eval =
  py_int_def int_strip_def is_int_space_def strip_def is_space_def is_digit_def digit_val_def

text \<open>A separator before the digits is removed by \<open>str.strip()\<close> and rejected by \<open>int()\<close>.\<close>

lemma int_separator:
  "py_int [CHR 0x1C, CHR ''5''] = Inl (ValueError [CHR 0x1C, CHR ''5''])"
  "strip [CHR 0x1C, CHR ''5''] = ''5''"
  "py_int '' 5 '' = Inr 5"
  by (simp_all add: py_int_eval)

lemma basename_decomp: "p = rev (dropWhile (\<lambda>c. c \<noteq> CHR ''/'') (rev p)) @ basename p"
proof -
  have "rev p = takeWhile (\<lambda>c. c \<noteq> CHR ''/'') (rev p) @ dropWhile (\<lambda>c. c \<noteq> CHR ''/'') (rev p)"
    by simp
  then have "rev (rev p) = rev (takeWhile (\<lambda>c. c \<noteq> CHR ''/'') (rev p) @ dropWhile (\<lambda>c. c \<noteq> CHR ''/'') (rev p))"
    by simp
  then show ?thesis
    unfolding basename_def rev_append rev_rev_ident .
qed

lemma basename_idem: "basename (basename p) = basename p"
  by (simp add: basename_def)

lemma takeWhile_shorter: "\<not> P c \<Longrightarrow> c \<in> set xs \<Longrightarrow> length (takeWhile P xs) < length xs"
  by (induction xs) auto

lemma drop_suffix_part: "k \<le> length n \<Longrightarrow> drop (length (d @ n) - k) (d @ n) = drop (length n - k) n"
  by simp

text \<open>The extension \<open>splitext\<close> returns is computed from the last component alone.\<close>

lemma snd_splitext:
  "snd (splitext p) =
     (let n = basename p; e = rev (takeWhile (\<lambda>c. c \<noteq> CHR ''.'') (rev n))
      in if CHR ''.'' \<in> set n \<and> list_ex (\<lambda>c. c \<noteq> CHR ''.'') (take (length n - length e - 1) n)
         then drop (length n - length e - 1) n else [])"
proof (cases "CHR ''.'' \<in> set (basename p)")
  case False
  then show ?thesis by (simp add: splitext_def Let_def)
next
  case True
  define n where "n = basename p"
  define e where "e = rev (takeWhile (\<lambda>c. c \<noteq> CHR ''.'') (rev n))"
  obtain d where p: "p = d @ n" using basename_decomp[of p] n_def by blast
  have "length (takeWhile (\<lambda>c. c \<noteq> CHR ''.'') (rev n)) < length (rev n)"
    using True by (intro takeWhile_shorter[of _ "CHR ''.''"]) (simp_all add: n_def)
  then have k: "length e + 1 \<le> length n" by (simp add: e_def)
  have "drop (length (d @ n) - (length e + 1)) (d @ n) = drop (length n - (length e + 1)) n"
    using k by (rule drop_suffix_part)
  then have "drop (length p - length e - 1) p = drop (length n - length e - 1) n"
    by (simp add: p)
  then show ?thesis
    unfolding splitext_def Let_def n_def[symmetric] e_def[symmetric]
    by simp
qed

lemma splitext_basename_snd: "snd (splitext (basename p)) = snd (splitext p)"
  by (simp add: snd_splitext basename_idem)

section \<open>Segment-time estimator\<close>

lemma demo_bitrate:
  "ffprobe_bitrate_or_calc (demo_env (Inr ''100000000'') P L) ''in.mp4'' = Inr 100000000"
  by (simp add: ffprobe_bitrate_or_calc_def demo_env_def py_int_eval)

lemma demo_cli_bitrate:
  "cli_bit_rate (demo_cli (Inr ''100000000'')) ''in.mp4'' = Inr 100000000"
  by (simp add: cli_bit_rate_def declared_bit_rate_def ffprobe_value_def demo_cli_def py_int_eval)

text \<open>
  Claim C1. For a positive integer \<open>chunk_mb\<close> and a probed bitrate above zero, the
  estimator of the web worker and the one of the command-line tool both return
  \<open>max(1.0, chunk_mb * 1024 * 1024 * 8 / bitrate)\<close>; when the quotient is below 1 the
  result is 1.
\<close>

theorem C1_estimator:
  assumes "0 < chunk_mb" and "0 < bitrate"
    and "ffprobe_bitrate_or_calc E path = Inr bitrate"
    and "cli_bit_rate C input_file = Inr bitrate"
  shows "estimate_seg_time_secs E path chunk_mb
           = Inr (max 1 (real_of_int chunk_mb * 1024 * 1024 * 8 / bitrate))
       \<and> compute_segment_time_secs C input_file chunk_mb
           = Inr (max 1 (real_of_int chunk_mb * 1024 * 1024 * 8 / bitrate))
       \<and> (real_of_int chunk_mb * 1024 * 1024 * 8 / bitrate < 1 \<longrightarrow>
            estimate_seg_time_secs E path chunk_mb = Inr 1
          \<and> compute_segment_time_secs C input_file chunk_mb = Inr 1)"
  using assms
  by (simp add: estimate_seg_time_secs_def compute_segment_time_secs_def seg_time_of_def max_def)

text \<open>The example of the specification: 1 MB against 100 Mbit/s is clamped to one second.\<close>

theorem C1_estimator_witness:
  "(0::int) < 1 \<and> (0::real) < 100000000
   \<and> ffprobe_bitrate_or_calc
        (demo_env (Inr ''100000000'') (LaunchFailed CalledProcessError) (Inr [])) ''in.mp4''
       = Inr 100000000
   \<and> cli_bit_rate (demo_cli (Inr ''100000000'')) ''in.mp4'' = Inr 100000000
   \<and> estimate_seg_time_secs
        (demo_env (Inr ''100000000'') (LaunchFailed CalledProcessError) (Inr [])) ''in.mp4'' 1
       = Inr 1
   \<and> compute_segment_time_secs (demo_cli (Inr ''100000000'')) ''in.mp4'' 1 = Inr 1"
  using C1_estimator [of 1 100000000
          "demo_env (Inr ''100000000'') (LaunchFailed CalledProcessError) (Inr [])" "''in.mp4''"
          "demo_cli (Inr ''100000000'')" "''in.mp4''", OF _ _ demo_bitrate demo_cli_bitrate]
        demo_bitrate demo_cli_bitrate
  by simp

section \<open>Prober\<close>

text \<open>What the prober of app.py does with each answer to the bitrate query.\<close>

lemma prober_cases:
  "(probe_bit_rate E path = Inl CalledProcessError \<longrightarrow>
       ffprobe_bitrate_or_calc E path = bitrate_calc E path)
 \<and> (probe_bit_rate E path = Inr out \<and> py_int (strip out) = Inr n \<and> n \<le> 0 \<longrightarrow>
       ffprobe_bitrate_or_calc E path = bitrate_calc E path)
 \<and> (probe_bit_rate E path = Inr out \<and> py_int (strip out) = Inr n \<and> 0 < n \<longrightarrow>
       ffprobe_bitrate_or_calc E path = Inr (real_of_int n))
 \<and> (probe_bit_rate E path = Inr out \<and> py_int (strip out) = Inl e \<longrightarrow>
       ffprobe_bitrate_or_calc E path = Inl e)"
  by (auto simp: ffprobe_bitrate_or_calc_def py_int_def Let_def
           split: list.splits option.splits if_splits)

text \<open>
  Claim C5. When the bitrate is absent the prober is to return size * 8 / duration
  instead of failing. \<open>ffprobe\<close> prints \<open>N/A\<close> for a bitrate it does not know; on that
  answer, and on an empty one, \<open>ffprobe_bitrate_or_calc\<close> of app.py raises \<open>ValueError\<close>,
  where the fallback would have given 4000000 bits per second and where slice.py does
  fall back on the empty answer.
\<close>

theorem C5_absent_bitrate_raises:
  "ffprobe_bitrate_or_calc
     (demo_env (Inr ''N/A'') (LaunchFailed CalledProcessError) (Inr [])) ''in.mp4''
     = Inl (ValueError ''N/A'')
 \<and> ffprobe_bitrate_or_calc
     (demo_env (Inr []) (LaunchFailed CalledProcessError) (Inr [])) ''in.mp4''
     = Inl (ValueError [])
 \<and> bitrate_calc
     (demo_env (Inr ''N/A'') (LaunchFailed CalledProcessError) (Inr [])) ''in.mp4''
     = Inr 4000000
 \<and> cli_bit_rate (demo_cli (Inr [])) ''in.mp4'' = Inr 4000000"
  by (simp add: ffprobe_bitrate_or_calc_def bitrate_calc_def ffprobe_duration_def demo_env_def
        py_int_eval cli_bit_rate_def declared_bit_rate_def ffprobe_value_def demo_cli_def)

section \<open>Submission\<close>

text \<open>
  Claim C7. A submission whose \<open>chunk_mb\<close> field (\<open>"0"\<close> when missing) is not an integer,
  or is an integer that is zero or negative, is answered with status 400; the server
  state, and with it the registry, is the one before the request, no worker is started
  and no job id is returned.
\<close>

theorem C7_rejected:
  assumes "txt = (case form_chunk_mb rq of None \<Rightarrow> ''0'' | Some s \<Rightarrow> s)"
    and "(\<exists>e. py_int txt = Inl e) \<or> (\<exists>n. py_int txt = Inr n \<and> n \<le> 0)"
  shows "start W rq S = (Abort 400 ''chunk_mb must be a positive integer'', S)
       \<and> JOBS (snd (start W rq S)) = JOBS S
       \<and> threads (snd (start W rq S)) = threads S
       \<and> (\<forall>job_id. fst (start W rq S) \<noteq> Redirect job_id)"
proof -
  have "read_chunk_mb rq = None"
    using assms by (auto simp: read_chunk_mb_def)
  then show ?thesis by (simp add: start_def)
qed

theorem C7_rejected_witness:
  "start demo_web (demo_request ''0'') demo_server
     = (Abort 400 ''chunk_mb must be a positive integer'', demo_server)
 \<and> start demo_web (demo_request ''-5'') demo_server
     = (Abort 400 ''chunk_mb must be a positive integer'', demo_server)
 \<and> start demo_web (demo_request ''ten'') demo_server
     = (Abort 400 ''chunk_mb must be a positive integer'', demo_server)
 \<and> start demo_web (demo_request [CHR 0x1C, CHR ''5'']) demo_server
     = (Abort 400 ''chunk_mb must be a positive integer'', demo_server)"
proof -
  have a: "(\<exists>e. py_int ''0'' = Inl e) \<or> (\<exists>n. py_int ''0'' = Inr n \<and> n \<le> 0)"
    by (simp add: py_int_eval)
  have b: "(\<exists>e. py_int ''-5'' = Inl e) \<or> (\<exists>n. py_int ''-5'' = Inr n \<and> n \<le> 0)"
    by (simp add: py_int_eval)
  have c: "(\<exists>e. py_int ''ten'' = Inl e) \<or> (\<exists>n. py_int ''ten'' = Inr n \<and> n \<le> 0)"
    by (simp add: py_int_eval)
  have d: "(\<exists>e. py_int [CHR 0x1C, CHR ''5''] = Inl e)
         \<or> (\<exists>n. py_int [CHR 0x1C, CHR ''5''] = Inr n \<and> n \<le> 0)"
    by (simp add: py_int_eval)
  show ?thesis
    using C7_rejected [of "''0''" "demo_request ''0''" demo_web demo_server, OF _ a]
          C7_rejected [of "''-5''" "demo_request ''-5''" demo_web demo_server, OF _ b]
          C7_rejected [of "''ten''" "demo_request ''ten''" demo_web demo_server, OF _ c]
          C7_rejected [of "[CHR 0x1C, CHR ''5'']" "demo_request [CHR 0x1C, CHR ''5'']"
                         demo_web demo_server, OF _ d]
    by (simp add: demo_request_def)
qed

section \<open>Histories of the worker\<close>

text \<open>A property kept by every assignment of the worker holds of every version it writes.\<close>

lemma writes_all:
  "P j \<Longrightarrow> (\<And>f v. f \<in> set fs \<Longrightarrow> P v \<Longrightarrow> P (f v)) \<Longrightarrow> list_all P (writes j fs)"
  by (induction fs arbitrary: j) auto

lemma latest_all: "P j \<Longrightarrow> list_all P h \<Longrightarrow> P (latest j h)"
  by (cases h rule: rev_cases) (auto simp: latest_def)

lemma latest_append: "latest j (h @ h') = latest (latest j h) h'"
  by (cases h' rule: rev_cases) (auto simp: latest_def)

lemma read_progress_all:
  "P j \<Longrightarrow> (\<And>v p. P v \<Longrightarrow> P (v\<lparr>pct := p\<rparr>)) \<Longrightarrow> list_all P (fst (read_progress dur j ls))"
proof (induction ls arbitrary: j)
  case Nil
  then show ?case by simp
next
  case (Cons l ls)
  show ?case
  proof (cases "progress_line dur l")
    case (Inl e)
    then show ?thesis by simp
  next
    case (Inr r)
    show ?thesis
    proof (cases r)
      case None
      with Inr Cons show ?thesis by simp
    next
      case (Some p)
      have "P (j\<lparr>pct := p\<rparr>)" using Cons.prems by blast
      moreover from this have "list_all P (fst (read_progress dur (j\<lparr>pct := p\<rparr>) ls))"
        using Cons.IH Cons.prems(2) by blast
      ultimately show ?thesis using Inr Some
        by (cases "read_progress dur (j\<lparr>pct := p\<rparr>) ls") auto
    qed
  qed
qed

lemma supervise_all:
  assumes "P j"
    and "\<And>v s. P v \<Longrightarrow> P (v\<lparr>status := s\<rparr>)"
    and "\<And>v m. P v \<Longrightarrow> P (v\<lparr>msg := m\<rparr>)"
    and "\<And>v t. P v \<Longrightarrow> P (v\<lparr>finished := t\<rparr>)"
    and "\<And>v ps. P v \<Longrightarrow> P (v\<lparr>parts := ps\<rparr>)"
    and "\<And>v p. P v \<Longrightarrow> P (v\<lparr>pct := p\<rparr>)"
  shows "list_all P (supervise E j path seg_time out_pat ext dur)"
proof (cases "popen E path seg_time out_pat")
  case (LaunchFailed e)
  have "list_all P (writes j (failed E e))"
    using assms by (intro writes_all) (auto simp: failed_def)
  then show ?thesis using LaunchFailed by (simp add: supervise_def)
next
  case (Ran lines ret err)
  obtain h r where rp: "read_progress dur j lines = (h, r)" by (cases "read_progress dur j lines")
  have h: "list_all P h"
    using read_progress_all[of P j dur lines] assms(1,6) rp by simp
  have l: "P (latest j h)" using assms(1) h by (rule latest_all)
  show ?thesis
  proof (cases r)
    case (Some e)
    have "list_all P (writes (latest j h) (failed E e))"
      using l assms by (intro writes_all) (auto simp: failed_def)
    then show ?thesis using Ran rp Some h by (simp add: supervise_def)
  next
    case None
    show ?thesis
    proof (cases "ret = 0")
      case False
      have "list_all P (writes (latest j h)
                   [\<lambda>j. j\<lparr>status := Error\<rparr>,
                    \<lambda>j. j\<lparr>msg := (if err \<noteq> [] then ProcessOutput err else FfmpegExited ret)\<rparr>,
                    \<lambda>j. j\<lparr>finished := Some (clock E)\<rparr>])"
        using l assms by (intro writes_all) auto
      then show ?thesis using Ran rp None h False by (simp add: supervise_def)
    next
      case True
      define h2 where "h2 = h @ writes (latest j h) [\<lambda>j. j\<lparr>status := Done\<rparr>, \<lambda>j. j\<lparr>msg := Completed\<rparr>]"
      have "list_all P (writes (latest j h) [\<lambda>j. j\<lparr>status := Done\<rparr>, \<lambda>j. j\<lparr>msg := Completed\<rparr>])"
        using l assms by (intro writes_all) auto
      then have h2: "list_all P h2" using h by (simp add: h2_def)
      have l2: "P (latest j h2)" using assms(1) h2 by (rule latest_all)
      show ?thesis
      proof (cases "listdir E (str_or (Some (dirname out_pat)) ''.'')")
        case (Inl e)
        have "list_all P (writes (latest j h2) (failed E e))"
          using l2 assms by (intro writes_all) (auto simp: failed_def)
        moreover have "supervise E j path seg_time out_pat ext dur
                         = h2 @ writes (latest j h2) (failed E e)"
          using Ran rp None True Inl by (simp add: supervise_def h2_def Let_def del: writes.simps)
        ultimately show ?thesis using h2 by simp
      next
        case (Inr names)
        have "list_all P (writes (latest j h2)
                           [\<lambda>j. j\<lparr>parts := produced out_pat ext names\<rparr>,
                            \<lambda>j. j\<lparr>finished := Some (clock E)\<rparr>])"
          using l2 assms by (intro writes_all) auto
        moreover have "supervise E j path seg_time out_pat ext dur
                         = h2 @ writes (latest j h2)
                           [\<lambda>j. j\<lparr>parts := produced out_pat ext names\<rparr>,
                            \<lambda>j. j\<lparr>finished := Some (clock E)\<rparr>]"
          using Ran rp None True Inr by (simp add: supervise_def h2_def Let_def del: writes.simps)
        ultimately show ?thesis using h2 by simp
      qed
    qed
  qed
qed

lemma demo_metadata:
  "metadata (demo_env (Inr ''4000000'') P L) ''/srv/uploads/ab12_clip.mp4'' 5 = Inr (120, 1048576 / 100000)"
  by (simp add: metadata_def ffprobe_duration_def estimate_seg_time_secs_def seg_time_of_def
        ffprobe_bitrate_or_calc_def demo_env_def py_int_eval)

lemma demo_env_simps:
  "tools_ok (demo_env b P L)" "OUTPUT_DIR (demo_env b P L) = ''/srv/outputs''"
  "popen (demo_env b P L) p s q = P" "listdir (demo_env b P L) d = L" "clock (demo_env b P L) = 1000"
  by (simp_all add: demo_env_def)

lemma splitext_clip: "splitext ''ab12_clip.mp4'' = (''ab12_clip'', ''.mp4'')"
  by (simp add: splitext_def basename_def)

lemma basename_clip: "basename ''/srv/uploads/ab12_clip.mp4'' = ''ab12_clip.mp4''"
  by (simp add: basename_def)

lemma splitext_clip_path: "splitext ''/srv/uploads/ab12_clip.mp4'' = (''/srv/uploads/ab12_clip'', ''.mp4'')"
  by (simp add: splitext_def basename_def)

lemma splitext_noext: "splitext ''movies/raw'' = (''movies/raw'', [])"
  by (simp add: splitext_def basename_def)

section \<open>Default output pattern\<close>

text \<open>
  Claim C10. With no explicit pattern, once the probes have succeeded the worker stores
  as output pattern the output directory joined with the input's base name without
  extension, \<open>_part%03d\<close>, and the extension of the input file name, \<open>.mp4\<close> when it has
  none; the command-line tool derives the input path without extension, \<open>_part%03d\<close>
  and the extension or \<open>.mp4\<close>.
\<close>

theorem C10_default_pattern:
  assumes "tools_ok E" and "metadata E path chunk_mb = Inr (dur, seg_time)"
  shows "(\<exists>h. run_job E j path chunk_mb None = Inr h
            \<and> out_pattern (latest j h)
                = join (OUTPUT_DIR E)
                    (fst (splitext (basename path)) @ ''_part%03d''
                      @ (if snd (splitext (basename path)) = [] then ''.mp4''
                         else snd (splitext (basename path)))))
       \<and> cli_out_pattern input_file None
           = fst (splitext input_file) @ ''_part%03d''
               @ (if snd (splitext input_file) = [] then ''.mp4'' else snd (splitext input_file))"
proof -
  define ext where "ext = str_or (Some (snd (splitext path))) ''.mp4''"
  define pat where "pat = join (OUTPUT_DIR E) (fst (splitext (basename path)) @ ''_part%03d'' @ ext)"
  define h0 where "h0 = writes j
                          [\<lambda>j. j\<lparr>status := Running\<rparr>,
                           \<lambda>j. j\<lparr>msg := EstimateMsg \<lceil>dur / seg_time\<rceil> seg_time\<rparr>,
                           \<lambda>j. j\<lparr>out_pattern := pat\<rparr>]"
  define h1 where "h1 = supervise E (latest j h0) path seg_time pat ext dur"
  have run: "run_job E j path chunk_mb None = Inr (h0 @ h1)"
    using assms by (simp add: run_job_def Let_def str_or_def h0_def h1_def pat_def ext_def)
  have p0: "out_pattern (latest j h0) = pat"
    by (simp add: h0_def latest_def)
  have "list_all (\<lambda>v. out_pattern v = pat) h1"
    unfolding h1_def using p0 by (intro supervise_all) simp_all
  then have "out_pattern (latest (latest j h0) h1) = pat"
    using p0 latest_all[of "\<lambda>v. out_pattern v = pat" "latest j h0" h1] by simp
  then have o: "out_pattern (latest j (h0 @ h1)) = pat"
    by (simp add: latest_append)
  have e: "ext = (if snd (splitext (basename path)) = [] then ''.mp4''
                  else snd (splitext (basename path)))"
    by (simp add: ext_def str_or_def splitext_basename_snd)
  have "run_job E j path chunk_mb None = Inr (h0 @ h1)
            \<and> out_pattern (latest j (h0 @ h1))
                = join (OUTPUT_DIR E)
                    (fst (splitext (basename path)) @ ''_part%03d''
                      @ (if snd (splitext (basename path)) = [] then ''.mp4''
                         else snd (splitext (basename path))))"
    using run o e by (simp add: pat_def)
  then have A: "\<exists>h. run_job E j path chunk_mb None = Inr h
            \<and> out_pattern (latest j h)
                = join (OUTPUT_DIR E)
                    (fst (splitext (basename path)) @ ''_part%03d''
                      @ (if snd (splitext (basename path)) = [] then ''.mp4''
                         else snd (splitext (basename path))))"
    by (rule exI[of _ "h0 @ h1"])
  have B: "cli_out_pattern input_file None
           = fst (splitext input_file) @ ''_part%03d''
               @ (if snd (splitext input_file) = [] then ''.mp4'' else snd (splitext input_file))"
    by (simp add: cli_out_pattern_def str_or_def split: prod.splits)
  from A B show ?thesis by (rule conjI)
qed

theorem C10_default_pattern_witness:
  "tools_ok (demo_env (Inr ''4000000'') (LaunchFailed (OSError ''spawn'')) (Inr []))
 \<and> metadata (demo_env (Inr ''4000000'') (LaunchFailed (OSError ''spawn'')) (Inr []))
      ''/srv/uploads/ab12_clip.mp4'' 5 = Inr (120, 1048576 / 100000)
 \<and> (\<exists>h. run_job (demo_env (Inr ''4000000'') (LaunchFailed (OSError ''spawn'')) (Inr []))
            demo_job ''/srv/uploads/ab12_clip.mp4'' 5 None = Inr h
        \<and> out_pattern (latest demo_job h) = ''/srv/outputs/ab12_clip_part%03d.mp4'')
 \<and> cli_out_pattern ''movies/raw'' None = ''movies/raw_part%03d.mp4''"
  using C10_default_pattern [of "demo_env (Inr ''4000000'') (LaunchFailed (OSError ''spawn'')) (Inr [])"
          "''/srv/uploads/ab12_clip.mp4''" 5 120 "1048576 / 100000" demo_job "''movies/raw''",
          OF _ demo_metadata]
  by (simp add: demo_metadata basename_clip splitext_clip splitext_noext join_def
        demo_env_simps suffix_to_prefix)

section \<open>Progress lines\<close>


lemma progress_line_out_time:
  "strip raw = ''out_time_ms='' @ v \<Longrightarrow>
   progress_line dur raw =
     (case py_int v of
        Inl e \<Rightarrow> Inl e
      | Inr n \<Rightarrow> Inr (Some (min 1 ((real_of_int n / 10 ^ 6) / max dur (1 / 10 ^ 6)))))"
  by (simp add: progress_line_def Let_def split: sum.splits)

lemma progress_line_end: "strip raw = ''progress=end'' \<Longrightarrow> progress_line dur raw = Inr (Some 1)"
  by (simp add: progress_line_def Let_def)





section \<open>Malformed progress values\<close>

lemma read_progress_raise:
  "list_all (\<lambda>l. \<not> isl (progress_line dur l)) pre \<Longrightarrow> progress_line dur raw = Inl e \<Longrightarrow>
   read_progress dur j (pre @ raw # post) = (fst (read_progress dur j pre), Some e)"
proof (induction pre arbitrary: j)
  case Nil
  then show ?case by simp
next
  case (Cons l pre)
  then obtain r where r: "progress_line dur l = Inr r"
    by (cases "progress_line dur l") auto
  show ?case
  proof (cases r)
    case None
    with r Cons show ?thesis by simp
  next
    case (Some p)
    with r Cons show ?thesis
      by (cases "read_progress dur (j\<lparr>pct := p\<rparr>) pre") simp
  qed
qed

lemma latest_failed:
  "status (latest j (h @ writes (latest j h) (failed E e))) = Error
 \<and> msg (latest j (h @ writes (latest j h) (failed E e))) = ExceptionText e
 \<and> finished (latest j (h @ writes (latest j h) (failed E e))) = Some (clock E)"
  by (simp add: latest_append failed_def) (simp add: latest_def)

lemma py_int_error: "py_int v = Inl e \<Longrightarrow> e = ValueError v"
  by (auto simp: py_int_def Let_def split: list.splits option.splits if_splits)

lemma run_job_probed:
  "tools_ok E \<Longrightarrow> metadata E path chunk_mb = Inr (dur, seg_time) \<Longrightarrow>
   run_job E j path chunk_mb pattern =
     (let base = fst (splitext (basename path));
          ext = str_or (Some (snd (splitext path))) ''.mp4'';
          out_pat = str_or pattern (join (OUTPUT_DIR E) (base @ ''_part%03d'' @ ext));
          h = writes j
                [\<lambda>j. j\<lparr>status := Running\<rparr>,
                 \<lambda>j. j\<lparr>msg := EstimateMsg \<lceil>dur / seg_time\<rceil> seg_time\<rparr>,
                 \<lambda>j. j\<lparr>out_pattern := out_pat\<rparr>]
      in Inr (h @ supervise E (latest j h) path seg_time out_pat ext dur))"
  by (simp add: run_job_def)

text \<open>
  Claim C9. When the progress stream holds a line \<open>out_time_ms=v\<close> on whose value \<open>int\<close>
  raises, and no earlier line raised, the worker ends with the job in state error, the
  text of that \<open>ValueError\<close> as its message and the finishing time set: the line is
  neither skipped nor is the job left running.
\<close>

theorem C9_malformed_out_time:
  assumes "tools_ok E" and "metadata E path chunk_mb = Inr (dur, seg_time)"
    and "popen E = (\<lambda>_ _ _. Ran (pre @ raw # post) ret err)"
    and "list_all (\<lambda>l. \<not> isl (progress_line dur l)) pre"
    and "strip raw = ''out_time_ms='' @ v" and "py_int v = Inl e"
  shows "\<exists>h. run_job E j path chunk_mb pattern = Inr h
           \<and> status (latest j h) = Error
           \<and> msg (latest j h) = ExceptionText (ValueError v)
           \<and> finished (latest j h) = Some (clock E)"
proof -
  have pl: "progress_line dur raw = Inl e"
    using assms(5,6) by (simp add: progress_line_out_time)
  have e: "e = ValueError v" using assms(6) by (rule py_int_error)
  define ext where "ext = str_or (Some (snd (splitext path))) ''.mp4''"
  define pat where "pat = str_or pattern (join (OUTPUT_DIR E) (fst (splitext (basename path)) @ ''_part%03d'' @ ext))"
  define h0 where "h0 = writes j
                          [\<lambda>j. j\<lparr>status := Running\<rparr>,
                           \<lambda>j. j\<lparr>msg := EstimateMsg \<lceil>dur / seg_time\<rceil> seg_time\<rparr>,
                           \<lambda>j. j\<lparr>out_pattern := pat\<rparr>]"
  define j1 where "j1 = latest j h0"
  define h1 where "h1 = fst (read_progress dur j1 pre)"
  have run: "run_job E j path chunk_mb pattern = Inr (h0 @ supervise E j1 path seg_time pat ext dur)"
    using assms(1,2) by (simp add: run_job_probed Let_def h0_def j1_def pat_def ext_def)
  have sup: "supervise E j1 path seg_time pat ext dur = h1 @ writes (latest j1 h1) (failed E e)"
    using read_progress_raise[OF assms(4) pl, of j1 post]
    by (simp add: supervise_def assms(3) h1_def)
  have l: "latest j (h0 @ supervise E j1 path seg_time pat ext dur)
             = latest j1 (h1 @ writes (latest j1 h1) (failed E e))"
    unfolding sup by (simp add: latest_append j1_def)
  have "run_job E j path chunk_mb pattern = Inr (h0 @ supervise E j1 path seg_time pat ext dur)
           \<and> status (latest j (h0 @ supervise E j1 path seg_time pat ext dur)) = Error
           \<and> msg (latest j (h0 @ supervise E j1 path seg_time pat ext dur)) = ExceptionText (ValueError v)
           \<and> finished (latest j (h0 @ supervise E j1 path seg_time pat ext dur)) = Some (clock E)"
    using run latest_failed[of j1 h1 E e] e unfolding l by simp
  then show ?thesis by (rule exI[of _ "h0 @ supervise E j1 path seg_time pat ext dur"])
qed

theorem C9_malformed_out_time_witness:
  "\<exists>h. run_job (demo_env (Inr ''4000000'')
              (Ran [''frame=10'', ''out_time_ms=2000000'', ''out_time_ms=N/A'', ''progress=end''] 0 []) (Inr []))
            demo_job ''/srv/uploads/ab12_clip.mp4'' 5 None = Inr h
     \<and> status (latest demo_job h) = Error
     \<and> msg (latest demo_job h) = ExceptionText (ValueError ''N/A'')
     \<and> finished (latest demo_job h) = Some 1000"
proof -
  let ?E = "demo_env (Inr ''4000000'')
              (Ran [''frame=10'', ''out_time_ms=2000000'', ''out_time_ms=N/A'', ''progress=end''] 0 []) (Inr [])"
  have p: "popen ?E = (\<lambda>_ _ _. Ran ([''frame=10'', ''out_time_ms=2000000''] @ ''out_time_ms=N/A'' # [''progress=end'']) 0 [])"
    by (simp add: demo_env_def)
  have pre: "list_all (\<lambda>l. \<not> isl (progress_line 120 l)) [''frame=10'', ''out_time_ms=2000000'']"
    by (simp add: progress_line_def py_int_eval)
  have s: "strip ''out_time_ms=N/A'' = ''out_time_ms='' @ ''N/A''"
    by (simp add: strip_def is_space_def)
  have i: "py_int ''N/A'' = Inl (ValueError ''N/A'')" by (simp add: py_int_eval)
  show ?thesis
    using C9_malformed_out_time [of ?E "''/srv/uploads/ab12_clip.mp4''" 5 120 "1048576 / 100000"
            "[''frame=10'', ''out_time_ms=2000000'']" "''out_time_ms=N/A''" "[''progress=end'']" 0 "[]"
            "''N/A''" "ValueError ''N/A''" demo_job None,
            OF demo_env_simps(1) demo_metadata p pre s i]
    by (simp add: demo_env_simps)
qed

section \<open>The state machine of a job\<close>

lemma latest_Cons_append: "latest j (h @ [v]) = v" "latest j [] = j"
  by (simp_all add: latest_def)

lemma supervise_cases:
  obtains
    (Launch) e where "popen E path seg_time out_pat = LaunchFailed e"
      and "supervise E j path seg_time out_pat ext dur = writes j (failed E e)"
  | (Raise) lines ret err h e where "popen E path seg_time out_pat = Ran lines ret err"
      and "read_progress dur j lines = (h, Some e)"
      and "supervise E j path seg_time out_pat ext dur = h @ writes (latest j h) (failed E e)"
  | (Exit) lines ret err h where "popen E path seg_time out_pat = Ran lines ret err"
      and "read_progress dur j lines = (h, None)" and "ret \<noteq> 0"
      and "supervise E j path seg_time out_pat ext dur
             = h @ writes (latest j h)
                   [\<lambda>j. j\<lparr>status := Error\<rparr>,
                    \<lambda>j. j\<lparr>msg := (if err \<noteq> [] then ProcessOutput err else FfmpegExited ret)\<rparr>,
                    \<lambda>j. j\<lparr>finished := Some (clock E)\<rparr>]"
  | (ListFail) lines err h e where "popen E path seg_time out_pat = Ran lines 0 err"
      and "read_progress dur j lines = (h, None)"
      and "listdir E (str_or (Some (dirname out_pat)) ''.'') = Inl e"
      and "supervise E j path seg_time out_pat ext dur
             = h @ writes (latest j h)
                     ([\<lambda>j. j\<lparr>status := Done\<rparr>, \<lambda>j. j\<lparr>msg := Completed\<rparr>] @ failed E e)"
  | (Success) lines err h names where "popen E path seg_time out_pat = Ran lines 0 err"
      and "read_progress dur j lines = (h, None)"
      and "listdir E (str_or (Some (dirname out_pat)) ''.'') = Inr names"
      and "supervise E j path seg_time out_pat ext dur
             = h @ writes (latest j h)
                     [\<lambda>j. j\<lparr>status := Done\<rparr>, \<lambda>j. j\<lparr>msg := Completed\<rparr>,
                      \<lambda>j. j\<lparr>parts := produced out_pat ext names\<rparr>,
                      \<lambda>j. j\<lparr>finished := Some (clock E)\<rparr>]"
proof (cases "popen E path seg_time out_pat")
  case (LaunchFailed e)
  then show ?thesis using Launch by (simp add: supervise_def)
next
  case (Ran lines ret err)
  obtain h r where rp: "read_progress dur j lines = (h, r)" by (cases "read_progress dur j lines")
  show ?thesis
  proof (cases r)
    case (Some e)
    then show ?thesis using Raise[OF Ran] rp Ran by (simp add: supervise_def)
  next
    case None
    show ?thesis
    proof (cases "ret = 0")
      case False
      then show ?thesis using Exit[OF Ran] rp None Ran by (simp add: supervise_def)
    next
      case True
      show ?thesis
      proof (cases "listdir E (str_or (Some (dirname out_pat)) ''.'')")
        case (Inl e)
        then show ?thesis
          using ListFail[of lines err h e] rp None Ran True
          by (simp add: supervise_def Let_def latest_append latest_Cons_append failed_def)
             (simp add: latest_def)
      next
        case (Inr names)
        then show ?thesis
          using Success[of lines err h names] rp None Ran True
          by (simp add: supervise_def Let_def latest_append latest_Cons_append)
             (simp add: latest_def)
      qed
    qed
  qed
qed

lemma remdups_adj_same:
  "list_all (\<lambda>x. x = a) xs \<Longrightarrow> remdups_adj (a # xs @ ys) = remdups_adj (a # ys)"
  by (induction xs) auto

lemma read_progress_status:
  "list_all (\<lambda>s. s = status j) (map status (fst (read_progress dur j ls)))"
proof -
  have "list_all (\<lambda>v. status v = status j) (fst (read_progress dur j ls))"
    by (rule read_progress_all) simp_all
  then show ?thesis by (simp add: list_all_iff)
qed

lemma latest_read_progress_status: "status (latest j (fst (read_progress dur j ls))) = status j"
  using latest_all[of "\<lambda>v. status v = status j" j "fst (read_progress dur j ls)"]
        read_progress_all[of "\<lambda>v. status v = status j" j dur ls]
  by simp

lemma supervise_path:
  assumes "status j = Running" and "\<forall>d. \<not> isl (listdir E d)"
  shows "remdups_adj (Running # map status (supervise E j path seg_time out_pat ext dur))
           \<in> {[Running, Done], [Running, Error]}"
proof (cases rule: supervise_cases[of E path seg_time out_pat j ext dur])
  case (Launch e)
  then show ?thesis by (simp add: failed_def)
next
  case (Raise lines ret err h e)
  have "list_all (\<lambda>s. s = Running) (map status h)"
    using read_progress_status[of j dur lines] Raise(2) assms(1) by simp
  then show ?thesis using Raise(3)
    by (simp add: remdups_adj_same failed_def)
next
  case (Exit lines ret err h)
  have "list_all (\<lambda>s. s = Running) (map status h)"
    using read_progress_status[of j dur lines] Exit(2) assms(1) by simp
  then show ?thesis using Exit(4)
    by (simp add: remdups_adj_same)
next
  case (ListFail lines err h e)
  then show ?thesis using assms(2) by (metis isl_def)
next
  case (Success lines err h names)
  have "list_all (\<lambda>s. s = Running) (map status h)"
    using read_progress_status[of j dur lines] Success(2) assms(1) by simp
  then show ?thesis using Success(4)
    by (simp add: remdups_adj_same)
qed

lemma demo_metadata_absent:
  "metadata (demo_env (Inr ''N/A'') P L) path 5 = Inl (ValueError ''N/A'')"
  by (simp add: metadata_def ffprobe_duration_def estimate_seg_time_secs_def
        ffprobe_bitrate_or_calc_def demo_env_def py_int_eval)

lemma demo_job_simps:
  "status demo_job = Queued" "pct demo_job = 0" "parts demo_job = []"
  by (simp_all add: demo_job_def new_job_def)

text \<open>
  Claim C3 as stated lets a job reach a terminal state only from running and never
  leave one. When the probes fail the worker writes error over queued; and when the
  directory listing raises after the splitter exited with 0, it writes error over done.
\<close>

theorem C3_counterexample:
  "map_sum id (state_path demo_job)
     (run_job (demo_env (Inr ''N/A'') (Ran [] 0 []) (Inr [])) demo_job ''/srv/uploads/ab12_clip.mp4'' 5 None)
     = Inr [Queued, Error]
 \<and> map_sum id (state_path demo_job)
     (run_job (demo_env (Inr ''4000000'') (Ran [''progress=end''] 0 []) (Inl (OSError ''Permission denied'')))
        demo_job ''/srv/uploads/ab12_clip.mp4'' 5 None)
     = Inr [Queued, Running, Done, Error]"
  by (simp add: run_job_def demo_metadata_absent demo_metadata demo_env_simps state_path_def demo_job_simps
        supervise_def progress_line_end strip_def is_space_def latest_def failed_def Let_def)

text \<open>
  Claim C3, amended. For a job that is queued when its worker starts: if the tools are
  missing the worker raises before writing anything; if a probe fails the job goes
  queued, error; otherwise it goes queued, running, done or queued, running, error.
  This is for runs in which listing the output directory does not raise; no state is
  written after a terminal one there.
\<close>

theorem C3_state_paths:
  assumes "status j = Queued" and "\<forall>d. \<not> isl (listdir E d)"
  shows "case run_job E j path chunk_mb pattern of
           Inl e \<Rightarrow> \<not> tools_ok E
         | Inr h \<Rightarrow>
             tools_ok E
           \<and> (isl (metadata E path chunk_mb) \<longrightarrow>
                state_path j h = [Queued, Error])
           \<and> (\<not> isl (metadata E path chunk_mb) \<longrightarrow>
                state_path j h \<in> {[Queued, Running, Done], [Queued, Running, Error]})"
proof (cases "tools_ok E")
  case False
  then show ?thesis by (simp add: run_job_def)
next
  case True
  show ?thesis
  proof (cases "metadata E path chunk_mb")
    case (Inl e)
    then show ?thesis using True assms(1) by (simp add: run_job_def state_path_def)
  next
    case (Inr r)
    obtain dur seg_time where r: "r = (dur, seg_time)" by (cases r)
    define ext where "ext = str_or (Some (snd (splitext path))) ''.mp4''"
    define pat where "pat = str_or pattern (join (OUTPUT_DIR E) (fst (splitext (basename path)) @ ''_part%03d'' @ ext))"
    define h0 where "h0 = writes j
                          [\<lambda>j. j\<lparr>status := Running\<rparr>,
                           \<lambda>j. j\<lparr>msg := EstimateMsg \<lceil>dur / seg_time\<rceil> seg_time\<rparr>,
                           \<lambda>j. j\<lparr>out_pattern := pat\<rparr>]"
    define j1 where "j1 = latest j h0"
    have run: "run_job E j path chunk_mb pattern = Inr (h0 @ supervise E j1 path seg_time pat ext dur)"
      using True Inr r by (simp add: run_job_probed Let_def h0_def j1_def pat_def ext_def)
    have s1: "status j1 = Running" by (simp add: j1_def h0_def latest_def)
    have s0: "map status h0 = [Running, Running, Running]" by (simp add: h0_def)
    have "remdups_adj (Running # map status (supervise E j1 path seg_time pat ext dur))
           \<in> {[Running, Done], [Running, Error]}"
      using s1 assms(2) by (rule supervise_path)
    then have "remdups_adj (map status (j # h0 @ supervise E j1 path seg_time pat ext dur))
                 \<in> {[Queued, Running, Done], [Queued, Running, Error]}"
      using assms(1) s0 by auto
    then show ?thesis using True Inr run by (simp add: state_path_def)
  qed
qed
theorem C3_state_paths_witness:
  "status demo_job = Queued
 \<and> (\<forall>d. \<not> isl (listdir (demo_env (Inr ''4000000'') (Ran [''progress=end''] 0 []) (Inr [])) d))
 \<and> (case run_job (demo_env (Inr ''4000000'') (Ran [''progress=end''] 0 []) (Inr []))
            demo_job ''/srv/uploads/ab12_clip.mp4'' 5 None of
       Inl e \<Rightarrow> False
     | Inr h \<Rightarrow> state_path demo_job h \<in> {[Queued, Running, Done], [Queued, Running, Error]})"
proof -
  let ?E = "demo_env (Inr ''4000000'') (Ran [''progress=end''] 0 []) (Inr [])"
  have l: "\<forall>d. \<not> isl (listdir ?E d)" by (simp add: demo_env_simps)
  show ?thesis
    using C3_state_paths [of demo_job ?E "''/srv/uploads/ab12_clip.mp4''" 5 None, OF demo_job_simps(1) l] l
    by (simp add: demo_metadata demo_env_simps demo_job_simps split: sum.splits)
qed

section \<open>Produced parts\<close>



lemma demo_env_funs:
  "popen (demo_env b P L) = (\<lambda>_ _ _. P)" "listdir (demo_env b P L) = (\<lambda>_. L)"
  by (simp_all add: demo_env_def)









section \<open>Progress over a run\<close>

lemma reading_Skipped: "reading_of raw = Skipped \<Longrightarrow> progress_line dur raw = Inr None"
  by (auto simp: reading_of_def progress_line_def Let_def split: if_splits sum.splits)

lemma reading_Elapsed: "reading_of raw = Elapsed n \<Longrightarrow> progress_line dur raw = Inr (Some (fraction dur n))"
  by (auto simp: reading_of_def progress_line_def fraction_def Let_def split: if_splits sum.splits)

lemma reading_Ended: "reading_of raw = Ended \<Longrightarrow> progress_line dur raw = Inr (Some 1)"
  by (auto simp: reading_of_def progress_line_def Let_def split: if_splits sum.splits)

lemma reading_Unreadable: "reading_of raw = Unreadable \<Longrightarrow> isl (progress_line dur raw)"
  by (auto simp: reading_of_def progress_line_def Let_def split: if_splits sum.splits)

lemma fraction_mono: "n \<le> m \<Longrightarrow> fraction dur n \<le> fraction dur m"
proof -
  assume "n \<le> m"
  then have "real_of_int n / 1000000 \<le> real_of_int m / 1000000" by simp
  moreover have "0 < max dur (1 / 1000000)" by (simp add: max_def)
  ultimately have "(real_of_int n / 1000000) / max dur (1 / 1000000)
                 \<le> (real_of_int m / 1000000) / max dur (1 / 1000000)"
    by (intro divide_right_mono) simp_all
  then show ?thesis unfolding fraction_def by (intro min.mono) simp_all
qed

lemma fraction_bounds: "0 \<le> n \<Longrightarrow> 0 \<le> fraction dur n \<and> fraction dur n \<le> 1"
proof -
  assume "0 \<le> n"
  moreover have "0 < max dur (1 / 1000000)" by (simp add: max_def)
  ultimately have "0 \<le> (real_of_int n / 1000000) / max dur (1 / 1000000)"
    by (intro divide_nonneg_pos) simp_all
  then show ?thesis by (simp add: fraction_def)
qed

lemma fraction_zero: "fraction dur 0 = 0"
  by (simp add: fraction_def)

lemma after_end:
  "list_all no_elapsed (map reading_of ls) \<Longrightarrow> pct j = 1 \<Longrightarrow>
   list_all (\<lambda>v. pct v = 1) (fst (read_progress dur j ls))"
proof (induction ls arbitrary: j)
  case Nil
  then show ?case by simp
next
  case (Cons l ls)
  show ?case
  proof (cases "reading_of l")
    case Skipped
    then show ?thesis using Cons by (simp add: reading_Skipped)
  next
    case (Elapsed n)
    then show ?thesis using Cons.prems by simp
  next
    case Ended
    have "list_all (\<lambda>v. pct v = 1) (fst (read_progress dur (j\<lparr>pct := 1\<rparr>) ls))"
      using Cons by simp
    then show ?thesis using Ended
      by (cases "read_progress dur (j\<lparr>pct := 1\<rparr>) ls") (simp add: reading_Ended)
  next
    case Unreadable
    then obtain e where "progress_line dur l = Inl e"
      using reading_Unreadable[of l dur] by (cases "progress_line dur l") auto
    then show ?thesis by simp
  qed
qed

lemma sorted_ones: "list_all (\<lambda>x. x = (1::real)) xs \<Longrightarrow> a \<le> 1 \<Longrightarrow> sorted (a # xs)"
  by (induction xs arbitrary: a) (auto simp: list_all_iff)

lemma orderly_progress:
  "orderly lo (map reading_of ls) \<Longrightarrow> 0 \<le> lo \<Longrightarrow> 0 \<le> pct j \<Longrightarrow> pct j \<le> fraction dur lo \<Longrightarrow>
   sorted (pct j # map pct (fst (read_progress dur j ls)))
 \<and> list_all (\<lambda>p. 0 \<le> p \<and> p \<le> 1) (map pct (fst (read_progress dur j ls)))"
proof (induction ls arbitrary: j lo)
  case Nil
  then show ?case by simp
next
  case (Cons l ls)
  show ?case
  proof (cases "reading_of l")
    case Skipped
    then show ?thesis using Cons by (simp add: reading_Skipped)
  next
    case (Elapsed n)
    define p where "p = fraction dur n"
    define j' where "j' = j\<lparr>pct := p\<rparr>"
    have n: "lo \<le> n" "orderly n (map reading_of ls)" using Cons.prems(1) Elapsed by simp_all
    have n0: "0 \<le> n" using n(1) Cons.prems(2) by simp
    have pb: "0 \<le> p" "p \<le> 1" using fraction_bounds[OF n0, of dur] by (simp_all add: p_def)
    have jp: "pct j \<le> p" using fraction_mono[OF n(1), of dur] Cons.prems(4) by (simp add: p_def)
    have "sorted (pct j' # map pct (fst (read_progress dur j' ls)))
        \<and> list_all (\<lambda>p. 0 \<le> p \<and> p \<le> 1) (map pct (fst (read_progress dur j' ls)))"
      using Cons.IH[OF n(2) n0, of j'] pb by (simp add: j'_def p_def)
    moreover have "pct j' = p" by (simp add: j'_def)
    ultimately show ?thesis using Elapsed jp pb
      by (cases "read_progress dur j' ls")
         (auto simp: reading_Elapsed p_def[symmetric] j'_def[symmetric])
  next
    case Ended
    define j' where "j' = j\<lparr>pct := 1\<rparr>"
    have q: "list_all no_elapsed (map reading_of ls)" using Cons.prems(1) Ended by simp
    have one: "list_all (\<lambda>v. pct v = 1) (fst (read_progress dur j' ls))"
      using after_end[OF q, of j' dur] by (simp add: j'_def)
    then have ones: "list_all (\<lambda>x. x = 1) (map pct (fst (read_progress dur j' ls)))"
      by (simp add: list_all_iff)
    have j1: "pct j \<le> 1"
      using Cons.prems(2,4) fraction_bounds[of lo dur] by simp
    have "sorted (1 # map pct (fst (read_progress dur j' ls)))"
      using ones by (rule sorted_ones) simp
    moreover have "list_all (\<lambda>p. 0 \<le> p \<and> p \<le> 1) (map pct (fst (read_progress dur j' ls)))"
      using ones by (simp add: list_all_iff)
    moreover have "pct j' = 1" by (simp add: j'_def)
    ultimately show ?thesis using Ended j1
      by (cases "read_progress dur j' ls")
         (auto simp: reading_Ended j'_def[symmetric])
  next
    case Unreadable
    then obtain e where "progress_line dur l = Inl e"
      using reading_Unreadable[of l dur] by (cases "progress_line dur l") auto
    then show ?thesis by simp
  qed
qed

lemma orderly_end:
  "orderly lo (map reading_of ls) \<Longrightarrow> Ended \<in> set (map reading_of ls) \<Longrightarrow>
   read_progress dur j ls = (h, None) \<Longrightarrow> pct (latest j h) = 1"
proof (induction ls arbitrary: j lo h)
  case Nil
  then show ?case by simp
next
  case (Cons l ls)
  show ?case
  proof (cases "reading_of l")
    case Skipped
    then show ?thesis using Cons by (simp add: reading_Skipped)
  next
    case (Elapsed n)
    define j' where "j' = j\<lparr>pct := fraction dur n\<rparr>"
    obtain h' r where rp: "read_progress dur j' ls = (h', r)" by (cases "read_progress dur j' ls")
    have h: "h = j' # h'" "r = None"
      using Cons.prems(3) Elapsed rp by (simp_all add: reading_Elapsed j'_def[symmetric])
    have "pct (latest j' h') = 1"
      using Cons.IH[of n j' h'] Cons.prems(1,2) Elapsed rp h(2) by simp
    then show ?thesis by (simp add: h(1) latest_def)
  next
    case Ended
    define j' where "j' = j\<lparr>pct := 1\<rparr>"
    obtain h' r where rp: "read_progress dur j' ls = (h', r)" by (cases "read_progress dur j' ls")
    have h: "h = j' # h'"
      using Cons.prems(3) Ended rp by (simp add: reading_Ended j'_def[symmetric])
    have q: "list_all no_elapsed (map reading_of ls)" using Cons.prems(1) Ended by simp
    have "list_all (\<lambda>v. pct v = 1) h'"
      using after_end[OF q, of j' dur] rp by (simp add: j'_def)
    then have "pct (latest j' h') = 1"
      using latest_all[of "\<lambda>v. pct v = 1" j' h'] by (simp add: j'_def)
    then show ?thesis by (simp add: h latest_def)
  next
    case Unreadable
    then obtain e where "progress_line dur l = Inl e"
      using reading_Unreadable[of l dur] by (cases "progress_line dur l") auto
    then show ?thesis using Cons.prems(3) by simp
  qed
qed

lemma map_pct_writes:
  "(\<And>f v. f \<in> set fs \<Longrightarrow> pct (f v) = pct v) \<Longrightarrow> map pct (writes j fs) = replicate (length fs) (pct j)"
  by (induction fs arbitrary: j) auto

lemma pct_latest: "pct (latest j h) = last (pct j # map pct h)"
  by (simp add: latest_def last_map)

lemma le_last: "sorted xs \<Longrightarrow> x \<in> set xs \<Longrightarrow> x \<le> (last xs :: real)"
proof (induction xs)
  case Nil
  then show ?case by simp
next
  case (Cons y ys)
  show ?case
  proof (cases "ys = []")
    case True
    then show ?thesis using Cons.prems by simp
  next
    case False
    then have "last ys \<in> set ys" by simp
    then show ?thesis using Cons False by auto
  qed
qed

lemma sorted_stay:
  "sorted (a # xs) \<Longrightarrow> sorted ((a # xs) @ replicate k (last (a # xs :: real list)))"
  unfolding sorted_append using le_last[of "a # xs"] by auto


lemma unit_interval_stay:
  "list_all (\<lambda>p. 0 \<le> p \<and> p \<le> 1) (a # xs) \<Longrightarrow>
   list_all (\<lambda>p. 0 \<le> p \<and> p \<le> (1::real)) ((a # xs) @ replicate k (last (a # xs)))"
proof -
  assume a: "list_all (\<lambda>p. 0 \<le> p \<and> p \<le> 1) (a # xs)"
  have "last (a # xs) \<in> set (a # xs)" by (rule last_in_set) simp
  then have "0 \<le> last (a # xs) \<and> last (a # xs) \<le> 1"
    using a unfolding list_all_iff by blast
  then show ?thesis using a unfolding list_all_iff by (auto simp del: last.simps)
qed

text \<open>The progress values of the supervised part of a run: those the stream sets, then
  the last of them for as many versions as the worker writes afterwards.\<close>

lemma supervise_pcts:
  assumes "popen E path seg_time out_pat = proc"
  shows "\<exists>h r k. read_progress dur j (stdout_of proc) = (h, r)
           \<and> map pct (supervise E j path seg_time out_pat ext dur)
               = map pct h @ replicate k (pct (latest j h))
           \<and> (status (latest j (supervise E j path seg_time out_pat ext dur)) = Done \<longrightarrow>
                r = None \<and> pct (latest j (supervise E j path seg_time out_pat ext dur)) = pct (latest j h))"
proof (cases rule: supervise_cases[of E path seg_time out_pat j ext dur])
  case (Launch e)
  have "map pct (writes j (failed E e)) = replicate 3 (pct j)"
    using map_pct_writes[of "failed E e" j] by (simp add: failed_def eval_nat_numeral)
  then have "read_progress dur j (stdout_of proc) = ([], None)
           \<and> map pct (supervise E j path seg_time out_pat ext dur)
               = map pct [] @ replicate 3 (pct (latest j []))
           \<and> (status (latest j (supervise E j path seg_time out_pat ext dur)) = Done \<longrightarrow>
                None = None \<and> pct (latest j (supervise E j path seg_time out_pat ext dur)) = pct (latest j []))"
    using Launch assms by (simp add: latest_def failed_def)
  then show ?thesis by blast
next
  case (Raise lines ret err h e)
  have "map pct (writes (latest j h) (failed E e)) = replicate 3 (pct (latest j h))"
    using map_pct_writes[of "failed E e" "latest j h"] by (simp add: failed_def eval_nat_numeral)
  moreover have "status (latest j (h @ writes (latest j h) (failed E e))) = Error"
    using latest_failed[of j h E e] by simp
  ultimately have "read_progress dur j (stdout_of proc) = (h, Some e)
           \<and> map pct (supervise E j path seg_time out_pat ext dur)
               = map pct h @ replicate 3 (pct (latest j h))
           \<and> (status (latest j (supervise E j path seg_time out_pat ext dur)) = Done \<longrightarrow>
                Some e = None \<and> pct (latest j (supervise E j path seg_time out_pat ext dur)) = pct (latest j h))"
    using Raise assms by simp
  then show ?thesis by blast
next
  case (Exit lines ret err h)
  have "read_progress dur j (stdout_of proc) = (h, None)
           \<and> map pct (supervise E j path seg_time out_pat ext dur)
               = map pct h @ replicate 3 (pct (latest j h))
           \<and> (status (latest j (supervise E j path seg_time out_pat ext dur)) = Done \<longrightarrow>
                None = None \<and> pct (latest j (supervise E j path seg_time out_pat ext dur)) = pct (latest j h))"
    using Exit assms by (simp add: latest_append eval_nat_numeral) (simp add: latest_def)
  then show ?thesis by blast
next
  case (ListFail lines err h e)
  have "read_progress dur j (stdout_of proc) = (h, None)
           \<and> map pct (supervise E j path seg_time out_pat ext dur)
               = map pct h @ replicate 5 (pct (latest j h))
           \<and> (status (latest j (supervise E j path seg_time out_pat ext dur)) = Done \<longrightarrow>
                None = None \<and> pct (latest j (supervise E j path seg_time out_pat ext dur)) = pct (latest j h))"
    using ListFail assms by (simp add: latest_append failed_def eval_nat_numeral) (simp add: latest_def)
  then show ?thesis by blast
next
  case (Success lines err h names)
  have "read_progress dur j (stdout_of proc) = (h, None)
           \<and> map pct (supervise E j path seg_time out_pat ext dur)
               = map pct h @ replicate 4 (pct (latest j h))
           \<and> (status (latest j (supervise E j path seg_time out_pat ext dur)) = Done \<longrightarrow>
                None = None \<and> pct (latest j (supervise E j path seg_time out_pat ext dur)) = pct (latest j h))"
    using Success assms by (simp add: latest_append eval_nat_numeral) (simp add: latest_def)
  then show ?thesis by blast
qed

text \<open>
  Claim C2 as stated holds of every stream. On the stream \<open>out_time_ms=60000000\<close>,
  \<open>out_time_ms=-30000000\<close> for a two-minute input, with the splitter exiting 0, the
  progress of the running job goes from 1/2 down to -1/4, below 0, and the job is done
  with progress -1/4: the worker stores what each line gives and writes no progress on
  success.
\<close>

theorem C2_counterexample:
  "map_sum id (map pct)
     (run_job (demo_env (Inr ''4000000'')
                 (Ran [''out_time_ms=60000000'', ''out_time_ms=-30000000''] 0 [])
                 (Inr [''ab12_clip_part000.mp4'']))
        demo_job ''/srv/uploads/ab12_clip.mp4'' 5 None)
     = Inr [0, 0, 0, 1 / 2, - 1 / 4, - 1 / 4, - 1 / 4, - 1 / 4, - 1 / 4]
 \<and> map_sum id (map status)
     (run_job (demo_env (Inr ''4000000'')
                 (Ran [''out_time_ms=60000000'', ''out_time_ms=-30000000''] 0 [])
                 (Inr [''ab12_clip_part000.mp4'']))
        demo_job ''/srv/uploads/ab12_clip.mp4'' 5 None)
     = Inr [Running, Running, Running, Running, Running, Done, Done, Done, Done]"
  by (simp add: run_job_def demo_metadata demo_env_simps supervise_def progress_line_def
        py_int_eval latest_def Let_def demo_job_simps)

text \<open>
  Claim C2, amended. For a job whose progress is 0 when the worker starts, as \<open>start\<close>
  creates it, and a progress stream that is orderly (every \<open>out_time_ms\<close> value is a
  non-negative integer no smaller than the one before, and none follows \<open>progress=end\<close>):
  every version of the record has its progress within [0, 1]; the progress never
  decreases from one version to the next; and when the job ends done and the stream
  held \<open>progress=end\<close>, the progress is exactly 1.
\<close>

theorem C2_progress:
  assumes "pct j = 0" and "popen E = (\<lambda>_ _ _. proc)"
    and "orderly 0 (map reading_of (stdout_of proc))"
    and "run_job E j path chunk_mb pattern = Inr h"
  shows "list_all (\<lambda>p. 0 \<le> p \<and> p \<le> 1) (map pct (j # h))
       \<and> sorted (map pct (j # h))
       \<and> (status (latest j h) = Done \<and> Ended \<in> set (map reading_of (stdout_of proc)) \<longrightarrow>
            pct (latest j h) = 1)"
proof -
  have tools: "tools_ok E" using assms(4) by (auto simp: run_job_def split: if_splits)
  show ?thesis
  proof (cases "metadata E path chunk_mb")
    case (Inl e)
    then have "h = writes j
                 [\<lambda>j. j\<lparr>status := Error\<rparr>,
                  \<lambda>j. j\<lparr>msg := MetadataErrorMsg e\<rparr>,
                  \<lambda>j. j\<lparr>pct := 0\<rparr>,
                  \<lambda>j. j\<lparr>finished := Some (clock E)\<rparr>]"
      using tools assms(4) by (simp add: run_job_def)
    then show ?thesis using assms(1) by (simp add: latest_def)
  next
    case (Inr r)
    obtain dur seg_time where r: "r = (dur, seg_time)" by (cases r)
    define ext where "ext = str_or (Some (snd (splitext path))) ''.mp4''"
    define pat where "pat = str_or pattern (join (OUTPUT_DIR E) (fst (splitext (basename path)) @ ''_part%03d'' @ ext))"
    define h0 where "h0 = writes j
                          [\<lambda>j. j\<lparr>status := Running\<rparr>,
                           \<lambda>j. j\<lparr>msg := EstimateMsg \<lceil>dur / seg_time\<rceil> seg_time\<rparr>,
                           \<lambda>j. j\<lparr>out_pattern := pat\<rparr>]"
    define j1 where "j1 = latest j h0"
    define S where "S = supervise E j1 path seg_time pat ext dur"
    have "run_job E j path chunk_mb pattern = Inr (h0 @ S)"
      using tools Inr r by (simp add: run_job_probed Let_def h0_def j1_def pat_def ext_def S_def)
    then have h: "h = h0 @ S" using assms(4) by simp
    have p0: "map pct h0 = [0, 0, 0]" using assms(1) by (simp add: h0_def)
    have p1: "pct j1 = 0" using assms(1) by (simp add: j1_def h0_def latest_def)
    have lat: "latest j h = latest j1 S" by (simp add: h latest_append j1_def)
    have "popen E path seg_time pat = proc" by (simp add: assms(2))
    then obtain hp rr k where rp: "read_progress dur j1 (stdout_of proc) = (hp, rr)"
      and ps: "map pct S = map pct hp @ replicate k (pct (latest j1 hp))"
      and dn: "status (latest j1 S) = Done \<longrightarrow> rr = None \<and> pct (latest j1 S) = pct (latest j1 hp)"
      unfolding S_def using supervise_pcts[of E path seg_time pat proc dur j1 ext] by blast
    have op: "sorted (pct j1 # map pct hp) \<and> list_all (\<lambda>p. 0 \<le> p \<and> p \<le> 1) (map pct hp)"
      using orderly_progress[OF assms(3), of j1 dur] rp p1 by (simp add: fraction_zero)
    have lp: "pct (latest j1 hp) = last (0 # map pct hp)"
      using pct_latest[of j1 hp] p1 by simp
    have srt: "sorted ((0 # map pct hp) @ replicate k (last (0 # map pct hp)))"
      using op p1 by (intro sorted_stay) simp
    have unit: "list_all (\<lambda>p. 0 \<le> p \<and> p \<le> 1) ((0 # map pct hp) @ replicate k (last (0 # map pct hp)))"
      using op by (intro unit_interval_stay) simp
    have all: "map pct (j # h) = [0, 0, 0] @ ((0 # map pct hp) @ replicate k (last (0 # map pct hp)))"
      using assms(1) p0 ps lp by (simp add: h)
    have a: "list_all (\<lambda>p. 0 \<le> p \<and> p \<le> 1) (map pct (j # h))"
      unfolding all using unit by (simp del: last.simps)
    have b: "sorted (map pct (j # h))"
      unfolding all using srt by (simp del: last.simps add: sorted_append)
    have c: "status (latest j h) = Done \<and> Ended \<in> set (map reading_of (stdout_of proc)) \<longrightarrow>
            pct (latest j h) = 1"
    proof
      assume d: "status (latest j h) = Done \<and> Ended \<in> set (map reading_of (stdout_of proc))"
      then have "rr = None" and e: "pct (latest j1 S) = pct (latest j1 hp)"
        using dn lat by simp_all
      then have "read_progress dur j1 (stdout_of proc) = (hp, None)" using rp by simp
      then have "pct (latest j1 hp) = 1"
        using orderly_end[OF assms(3), of dur j1 hp] d by simp
      then show "pct (latest j h) = 1" using e lat by simp
    qed
    from a b c show ?thesis by blast
  qed
qed


theorem C2_progress_witness:
  "pct demo_job = 0
 \<and> orderly 0 (map reading_of [''out_time_ms=30000000'', ''frame=5'', ''out_time_ms=60000000'', ''progress=end''])
 \<and> (case run_job (demo_env (Inr ''4000000'')
                 (Ran [''out_time_ms=30000000'', ''frame=5'', ''out_time_ms=60000000'', ''progress=end''] 0 [])
                 (Inr [''ab12_clip_part000.mp4'']))
             demo_job ''/srv/uploads/ab12_clip.mp4'' 5 None of
       Inl e \<Rightarrow> False
     | Inr h \<Rightarrow>
         list_all (\<lambda>p. 0 \<le> p \<and> p \<le> 1) (map pct (demo_job # h))
       \<and> sorted (map pct (demo_job # h))
       \<and> status (latest demo_job h) = Done
       \<and> pct (latest demo_job h) = 1)"
proof -
  let ?P = "Ran [''out_time_ms=30000000'', ''frame=5'', ''out_time_ms=60000000'', ''progress=end''] 0 []"
  let ?E = "demo_env (Inr ''4000000'') ?P (Inr [''ab12_clip_part000.mp4''])"
  let ?R = "run_job ?E demo_job ''/srv/uploads/ab12_clip.mp4'' 5 None"
  have "map_sum id (status \<circ> latest demo_job) ?R = Inr Done"
    by (simp add: run_job_def demo_metadata demo_env_simps supervise_def progress_line_def
          py_int_eval latest_def Let_def)
  then obtain h where h: "?R = Inr h" "status (latest demo_job h) = Done"
    by (cases ?R) auto
  have o: "orderly 0 (map reading_of (stdout_of ?P))"
    by (simp add: reading_of_def py_int_eval)
  have e: "Ended \<in> set (map reading_of (stdout_of ?P))"
    by (simp add: reading_of_def py_int_eval)
  have rd: "reading_of ''out_time_ms=30000000'' = Elapsed 30000000"
    "reading_of ''frame=5'' = Skipped"
    "reading_of ''out_time_ms=60000000'' = Elapsed 60000000"
    "reading_of ''progress=end'' = Ended"
    by (simp_all add: reading_of_def py_int_eval)
  show ?thesis
    using C2_progress [OF demo_job_simps(2) demo_env_funs(1) o h(1)] h e
    by (simp add: demo_job_simps rd)
qed

section \<open>The progress stream\<close>

lemma gen_running:
  "list_all (\<lambda>r. present r \<and> \<not> terminal (status (at_break r))) rs \<Longrightarrow> gen rs = None"
  by (induction rs) auto

lemma gen_stops:
  "list_all (\<lambda>r. present r \<and> \<not> terminal (status (at_break r))) pre \<Longrightarrow>
   gen (pre @ r # post) =
     (if \<not> present r then Some (emitted pre)
      else if terminal (status (at_break r)) then Some (emitted pre @ [Emit (snapshot r)])
      else map_option (\<lambda>es. emitted pre @ Emit (snapshot r) # Sleep (15 / 100) # es) (gen post))"
  by (induction pre) (auto simp: emitted_def option.map_comp comp_def)

lemma demo_history_eval:
  "demo_history =
     [demo_job\<lparr>status := Running\<rparr>,
      demo_job\<lparr>status := Running, msg := EstimateMsg 12 (1048576 / 100000)\<rparr>,
      demo_job\<lparr>status := Running, msg := EstimateMsg 12 (1048576 / 100000),
               out_pattern := ''/srv/outputs/ab12_clip_part%03d.mp4''\<rparr>,
      demo_job\<lparr>status := Running, msg := EstimateMsg 12 (1048576 / 100000),
               out_pattern := ''/srv/outputs/ab12_clip_part%03d.mp4'', pct := 1\<rparr>,
      demo_job\<lparr>status := Done, msg := EstimateMsg 12 (1048576 / 100000),
               out_pattern := ''/srv/outputs/ab12_clip_part%03d.mp4'', pct := 1\<rparr>,
      demo_job\<lparr>status := Done, msg := Completed,
               out_pattern := ''/srv/outputs/ab12_clip_part%03d.mp4'', pct := 1\<rparr>,
      demo_job\<lparr>status := Done, msg := Completed,
               out_pattern := ''/srv/outputs/ab12_clip_part%03d.mp4'', pct := 1,
               parts := [''ab12_clip_part000.mp4'']\<rparr>,
      demo_job\<lparr>status := Done, msg := Completed,
               out_pattern := ''/srv/outputs/ab12_clip_part%03d.mp4'', pct := 1,
               parts := [''ab12_clip_part000.mp4''], finished := Some 1000\<rparr>]"
  by (simp add: demo_history_def run_job_def demo_metadata demo_env_simps supervise_def
        progress_line_end strip_def is_space_def latest_def Let_def str_or_def
        splitext_clip_path basename_clip splitext_clip join_def produced_def basename_def
        suffix_to_prefix)

text \<open>
  Claim C8 as stated ends the stream after a snapshot that shows a terminal state and,
  for a done job, the complete parts list. The generator reads the shared record
  several times in a turn while the worker writes it. If the worker writes
  \<open>status = "done"\<close> between the reads for the payload and the test after the \<open>yield\<close>,
  the stream ends on a snapshot that says running. And a turn that sees the record
  after \<open>status = "done"\<close> and before \<open>parts\<close> is assigned ends the stream with a done
  snapshot whose file list is empty, although the run lists one part.
\<close>

theorem C8_counterexample:
  "gen [(quiet (demo_history ! 3))\<lparr>at_break := demo_history ! 4\<rparr>]
     = Some [Emit \<lparr>p_status = Running, p_pct = 1,
                   p_msg = EstimateMsg 12 (1048576 / 100000), p_files = []\<rparr>]
 \<and> gen [quiet (demo_history ! 5)]
     = Some [Emit \<lparr>p_status = Done, p_pct = 1, p_msg = Completed, p_files = []\<rparr>]
 \<and> parts (last demo_history) = [''ab12_clip_part000.mp4'']"
  by (simp add: demo_history_eval quiet_def snapshot_def terminal_def demo_job_def new_job_def)

text \<open>
  Claim C8, amended. The stream emits one snapshot per poll, each followed by a sleep of
  0.15 s while the status read after the emission is not terminal, and ends right
  after the snapshot of the first poll whose status read after the emission is done or
  error (or at once, with no snapshot, if the record is missing); while no poll reads
  such a status the stream does not end. When the worker writes nothing during a poll,
  its snapshot shows the state, progress and message of the record, with the parts
  list the record holds if the state is terminal and an empty list otherwise.
\<close>

theorem C8_stream:
  "(list_all (\<lambda>r. present r \<and> \<not> terminal (status (at_break r))) pre
      \<and> present r \<and> terminal (status (at_break r)) \<longrightarrow>
      gen (pre @ r # post) = Some (emitted pre @ [Emit (snapshot r)]))
 \<and> (list_all (\<lambda>r. present r \<and> \<not> terminal (status (at_break r))) pre \<and> \<not> present r \<longrightarrow>
      gen (pre @ r # post) = Some (emitted pre))
 \<and> (list_all (\<lambda>r. present r \<and> \<not> terminal (status (at_break r))) pre \<longrightarrow> gen pre = None)
 \<and> (terminal (status j) \<longrightarrow>
      snapshot (quiet j)
        = \<lparr>p_status = status j, p_pct = pct j, p_msg = msg j, p_files = parts j\<rparr>)
 \<and> (\<not> terminal (status j) \<longrightarrow>
      snapshot (quiet j)
        = \<lparr>p_status = status j, p_pct = pct j, p_msg = msg j, p_files = []\<rparr>)"
  by (simp add: gen_stops gen_running snapshot_def quiet_def)

theorem C8_stream_witness:
  "gen [quiet (demo_history ! 2), quiet (demo_history ! 3), quiet (last demo_history)]
     = Some [Emit \<lparr>p_status = Running, p_pct = 0,
                   p_msg = EstimateMsg 12 (1048576 / 100000), p_files = []\<rparr>,
             Sleep (15 / 100),
             Emit \<lparr>p_status = Running, p_pct = 1,
                   p_msg = EstimateMsg 12 (1048576 / 100000), p_files = []\<rparr>,
             Sleep (15 / 100),
             Emit \<lparr>p_status = Done, p_pct = 1, p_msg = Completed,
                   p_files = [''ab12_clip_part000.mp4'']\<rparr>]
 \<and> gen [quiet (demo_history ! 2), quiet (demo_history ! 3)] = None"
proof -
  let ?pre = "[quiet (demo_history ! 2), quiet (demo_history ! 3)]"
  have s: "status (demo_history ! 2) = Running" "status (demo_history ! 3) = Running"
    "status (last demo_history) = Done"
    by (simp_all add: demo_history_eval)
  have pre: "list_all (\<lambda>r. present r \<and> \<not> terminal (status (at_break r))) ?pre"
    by (simp add: quiet_def terminal_def s)
  have fin: "present (quiet (last demo_history))
             \<and> terminal (status (at_break (quiet (last demo_history))))"
    by (simp add: quiet_def terminal_def s)
  have t: "terminal (status (last demo_history))" "\<not> terminal (status (demo_history ! 2))"
    "\<not> terminal (status (demo_history ! 3))"
    by (simp_all add: terminal_def s)
  have v: "pct (demo_history ! 2) = 0" "pct (demo_history ! 3) = 1" "pct (last demo_history) = 1"
    "msg (demo_history ! 2) = EstimateMsg 12 (1048576 / 100000)"
    "msg (demo_history ! 3) = EstimateMsg 12 (1048576 / 100000)"
    "msg (last demo_history) = Completed"
    "parts (last demo_history) = [''ab12_clip_part000.mp4'']"
    by (simp_all add: demo_history_eval demo_job_def new_job_def)
  show ?thesis
    using C8_stream [of ?pre "quiet (last demo_history)" "[]" "last demo_history"]
          C8_stream [of ?pre "quiet (last demo_history)" "[]" "demo_history ! 2"]
          C8_stream [of ?pre "quiet (last demo_history)" "[]" "demo_history ! 3"]
          pre fin t
    by (simp add: emitted_def s v del: gen.simps)
qed

end
